theory Spec2Isabelle
  imports Main "HOL-Library.Word" "HOL-Library.AList"
begin

unbundle bit_operations_syntax

section \<open>SPUD game state: snapshot and restore of actors (SpudGameState.cpp)\<close>

text \<open>
  A shallow embedding of \<^verbatim>\<open>USpudGameState\<close>. Mutation of actors, levels and the
  in-memory \<^verbatim>\<open>SaveData\<close> is explicit state passing; \<^verbatim>\<open>UE_LOG\<close> calls are returned
  as a list of log lines. Engine services and user callbacks the file only calls
  (class loading, spawning, the \<^verbatim>\<open>ISpudObjectCallback\<close> hooks, indeterminate stack
  values) are the fields of an environment record.
\<close>

subsection \<open>Engine values\<close>

type_synonym byte = "8 word"
type_synonym bytes = "byte list"

text \<open>A 32-bit float is kept as its four raw bytes: the code only copies floats.\<close>
type_synonym float32 = "byte \<times> byte \<times> byte \<times> byte"
type_synonym FVector = "float32 \<times> float32 \<times> float32"
type_synonym FQuat = "float32 \<times> float32 \<times> float32 \<times> float32"

record FTransform =
  Rotation :: FQuat
  Translation :: FVector
  Scale3D :: FVector

definition f32_zero :: float32 where
  "f32_zero = (0, 0, 0, 0)"

definition f32_one :: float32 where
  "f32_one = (0, 0, 0x80, 0x3F)"

definition ZeroVector :: FVector where
  "ZeroVector = (f32_zero, f32_zero, f32_zero)"

definition TransformIdentity :: FTransform where
  "TransformIdentity =
     \<lparr>Rotation = (f32_zero, f32_zero, f32_zero, f32_one),
      Translation = ZeroVector,
      Scale3D = (f32_one, f32_one, f32_one)\<rparr>"

type_synonym FGuid = "128 word"

definition Guid_IsValid :: "FGuid \<Rightarrow> bool" where
  "Guid_IsValid g \<longleftrightarrow> g \<noteq> 0"

datatype EObjectFlags = RF_ClassDefaultObject | RF_ArchetypeObject | RF_BeginDestroyed
  | RF_WasLoaded | RF_Transient

datatype EngineClass = Class_AActor | Class_AGameModeBase | Class_AGameStateBase
  | Class_APawn | Class_ACharacter | Class_Other string

datatype EComponentMobility = Static | Stationary | Movable

datatype ESpudRespawnMode = Default | AlwaysRespawn | NeverRespawn

datatype ELogVerbosity = Error | Warning | Verbose

type_synonym log_line = "ELogVerbosity \<times> string \<times> string list"

subsection \<open>Reflected properties\<close>

text \<open>
  Modelled from the spec: the reflection data of a class (\<^verbatim>\<open>FProperty\<close>) is not in the
  file. A persistent property is a fixed-width primitive leaf, a custom struct with
  nested properties, or a property of an unsupported kind.
\<close>

datatype ESpudStorageType = ESST_UInt8 | ESST_UInt16 | ESST_UInt32 | ESST_UInt64

fun StorageSize :: "ESpudStorageType \<Rightarrow> nat" where
  "StorageSize ESST_UInt8 = 1"
| "StorageSize ESST_UInt16 = 2"
| "StorageSize ESST_UInt32 = 4"
| "StorageSize ESST_UInt64 = 8"

datatype FProperty =
    PrimitiveProperty string ESpudStorageType
  | CustomStructProperty string "FProperty list"
  | UnsupportedKindProperty string

fun GetPropName :: "FProperty \<Rightarrow> string" where
  "GetPropName (PrimitiveProperty n k) = n"
| "GetPropName (CustomStructProperty n ps) = n"
| "GetPropName (UnsupportedKindProperty n) = n"

fun IsCustomStructProperty :: "FProperty \<Rightarrow> bool" where
  "IsCustomStructProperty (CustomStructProperty n ps) = True"
| "IsCustomStructProperty p = False"

subsection \<open>Actors and levels\<close>

record USceneComponent =
  Mobility :: EComponentMobility
  SimulatingPhysics :: bool
  IsPrimitiveComponent :: bool
  ComponentTransform :: FTransform
  PhysicsLinearVelocity :: FVector
  PhysicsAngularVelocity :: FVector

text \<open>
  An actor as far as the file observes it. \<^verbatim>\<open>IsRuntimeActor\<close> and
  \<^verbatim>\<open>IsPersistentObject\<close> hold the results of the \<^verbatim>\<open>SpudPropertyUtil\<close> predicates of
  the same names, which are not in the file. \<^verbatim>\<open>SpudGuid\<close> is \<open>None\<close> when the class
  has no SpudGuid property. \<^verbatim>\<open>SpudObject\<close> is \<open>None\<close> when the cast to
  \<^verbatim>\<open>ISpudObject\<close> fails. \<^verbatim>\<open>PropertyValues\<close> maps the address of a property (the path
  of its container followed by its name) to the raw bytes stored there.
\<close>

record AActor =
  ActorName :: string
  ClassPathName :: string
  ClassAncestry :: "EngineClass list"
  ClassProperties :: "FProperty list"
  ObjectFlags :: "EObjectFlags list"
  OutermostName :: "string option"
  IsRuntimeActor :: bool
  IsPersistentObject :: bool
  SpudObject :: "ESpudRespawnMode option"
  ImplementsSpudObjectCallback :: bool
  SpudGuid :: "FGuid option"
  bHidden :: bool
  RootComponent :: "USceneComponent option"
  PropertyValues :: "string list \<Rightarrow> bytes"

record ULevel =
  LevelIsValid :: bool
  LevelOutermostName :: "string option"
  Actors :: "AActor list"

definition HasAnyFlags :: "AActor \<Rightarrow> EObjectFlags list \<Rightarrow> bool" where
  "HasAnyFlags Obj FlagsToCheck \<longleftrightarrow> (\<exists>f \<in> set FlagsToCheck. f \<in> set (ObjectFlags Obj))"

definition IsA :: "AActor \<Rightarrow> EngineClass \<Rightarrow> bool" where
  "IsA Actor c \<longleftrightarrow> c \<in> set (ClassAncestry Actor)"

definition GetGuidProperty :: "AActor \<Rightarrow> FGuid" where
  "GetGuidProperty Actor = (case SpudGuid Actor of None \<Rightarrow> 0 | Some g \<Rightarrow> g)"

definition SetGuidProperty :: "AActor \<Rightarrow> FGuid \<Rightarrow> bool \<times> AActor" where
  "SetGuidProperty Actor g =
     (case SpudGuid Actor of
        None \<Rightarrow> (False, Actor)
      | Some old \<Rightarrow> (True, Actor\<lparr>SpudGuid := Some g\<rparr>))"

definition GetLevelActorName :: "AActor \<Rightarrow> string" where
  "GetLevelActorName Actor = ActorName Actor"

definition GetClassName :: "AActor \<Rightarrow> string" where
  "GetClassName Obj = ClassPathName Obj"

subsection \<open>Level names\<close>

definition ToUpperChar :: "char \<Rightarrow> char" where
  "ToUpperChar c =
     (let n = (of_char c :: nat) in if 97 \<le> n \<and> n \<le> 122 then char_of (n - 32) else c)"

definition StartsWithIgnoreCase :: "string \<Rightarrow> string \<Rightarrow> bool" where
  "StartsWithIgnoreCase s p \<longleftrightarrow>
     p \<noteq> [] \<and> length p \<le> length s \<and>
     map ToUpperChar (take (length p) s) = map ToUpperChar p"

text \<open>\<^verbatim>\<open>Split("/", nullptr, &Right, CaseSensitive, FromEnd)\<close>: the part after the last
  slash; the output stays empty when there is no slash.\<close>

fun SplitFromEndRight :: "string \<Rightarrow> string" where
  "SplitFromEndRight [] = []"
| "SplitFromEndRight (c # cs) =
     (if CHR ''/'' \<in> set cs then SplitFromEndRight cs
      else if c = CHR ''/'' then cs else [])"

definition GetLevelNameForObject :: "string option \<Rightarrow> string" where
  "GetLevelNameForObject OuterMost =
     (case OuterMost of
        Some PackageName \<Rightarrow>
          (let LevelName = SplitFromEndRight PackageName
           in if StartsWithIgnoreCase LevelName ''UEDPIE_''
              then drop 9 LevelName
              else LevelName)
      | None \<Rightarrow> [])"

definition GetLevelName :: "ULevel \<Rightarrow> string" where
  "GetLevelName Level = GetLevelNameForObject (LevelOutermostName Level)"

subsection \<open>Routing: respawn or level actor\<close>

definition ShouldRespawnRuntimeActor :: "AActor \<Rightarrow> bool" where
  "ShouldRespawnRuntimeActor Actor =
     (let RespawnMode = (case SpudObject Actor of None \<Rightarrow> Default | Some m \<Rightarrow> m)
      in case RespawnMode of
           Default \<Rightarrow>
             \<not> IsA Actor Class_AGameModeBase \<and>
             \<not> IsA Actor Class_AGameStateBase \<and>
             \<not> IsA Actor Class_APawn \<and>
             \<not> IsA Actor Class_ACharacter
         | AlwaysRespawn \<Rightarrow> True
         | NeverRespawn \<Rightarrow> False)"

definition ShouldActorBeRespawnedOnRestore :: "AActor \<Rightarrow> bool" where
  "ShouldActorBeRespawnedOnRestore Actor \<longleftrightarrow>
     IsRuntimeActor Actor \<and> ShouldRespawnRuntimeActor Actor"

subsection \<open>Stored data (SpudData.h)\<close>

text \<open>
  Modelled from the spec: the declarations of the stored records
  (\<^verbatim>\<open>FSpudClassMetadata\<close>, \<^verbatim>\<open>FSpudClassDef\<close>, \<^verbatim>\<open>FSpudLevelData\<close> and the object data
  records) are not in the file. Fields are the ones the file reads and writes.
  The sentinel \<^verbatim>\<open>SPUDDATA_INDEX_NONE\<close> of a failed name lookup is \<open>None\<close>; a prefix ID
  is the root sentinel \<^verbatim>\<open>SPUDDATA_PREFIXID_NONE\<close>, a registered ID or the failed
  lookup.
\<close>

datatype PrefixID = SPUDDATA_PREFIXID_NONE | PrefixIndex nat | SPUDDATA_INDEX_NONE

record FSpudPropertyDef =
  PropertyID :: nat
  PropPrefixID :: PrefixID
  DataType :: ESpudStorageType

record FSpudClassDef =
  ClassName :: string
  Properties :: "FSpudPropertyDef list"
  PropertyLookup :: "PrefixID \<rightharpoonup> (nat \<rightharpoonup> int)"

record FSpudClassMetadata =
  ClassDefinitions :: "FSpudClassDef list"
  PropertyNames :: "string list"
  NestedPrefixes :: "(PrefixID \<times> string) list"

record FSpudPropertyData =
  PropertyOffsets :: "nat list"
  PropData :: bytes

record FSpudObjectData =
  CoreData :: bytes
  ObjProperties :: FSpudPropertyData
  CustomData :: bytes

record FSpudNamedObjectData = FSpudObjectData +
  ObjName :: string

record FSpudSpawnedActorData = FSpudObjectData +
  Guid :: FGuid
  ClassID :: nat

text \<open>\<^verbatim>\<open>SpawnedActors\<close> is iterated by \<^verbatim>\<open>RestoreLevel\<close>, so it keeps its entries in a
  list; the key is the GUID (its string form is injective).\<close>

record FSpudLevelData =
  LevelDataName :: string
  Metadata :: FSpudClassMetadata
  LevelActors :: "string \<rightharpoonup> FSpudNamedObjectData"
  SpawnedActors :: "(FGuid \<times> FSpudSpawnedActorData) list"
  DestroyedActors :: "string list"

record FSpudSaveData =
  LevelDataMap :: "string \<rightharpoonup> FSpudLevelData"

definition EmptyPropertyData :: FSpudPropertyData where
  "EmptyPropertyData = \<lparr>PropertyOffsets = [], PropData = []\<rparr>"

definition NewNamedObjectData :: "string \<Rightarrow> FSpudNamedObjectData" where
  "NewNamedObjectData n =
     \<lparr>CoreData = [], ObjProperties = EmptyPropertyData, CustomData = [], ObjName = n\<rparr>"

definition NewSpawnedActorData :: "FGuid \<Rightarrow> nat \<Rightarrow> FSpudSpawnedActorData" where
  "NewSpawnedActorData g c =
     \<lparr>CoreData = [], ObjProperties = EmptyPropertyData, CustomData = [],
      Guid = g, ClassID = c\<rparr>"

definition EmptyMetadata :: FSpudClassMetadata where
  "EmptyMetadata = \<lparr>ClassDefinitions = [], PropertyNames = [], NestedPrefixes = []\<rparr>"

definition NewLevelData :: "string \<Rightarrow> FSpudLevelData" where
  "NewLevelData n =
     \<lparr>LevelDataName = n, Metadata = EmptyMetadata, LevelActors = Map.empty,
      SpawnedActors = [], DestroyedActors = []\<rparr>"

subsection \<open>Metadata registry\<close>

fun IndexOf :: "'a \<Rightarrow> 'a list \<Rightarrow> nat option" where
  "IndexOf x [] = None"
| "IndexOf x (y # ys) =
     (if x = y then Some 0 else map_option Suc (IndexOf x ys))"

text \<open>
  Modelled from the spec: the registry operations of \<^verbatim>\<open>FSpudClassMetadata\<close> and
  \<^verbatim>\<open>FSpudClassDef\<close> (section 4.1) are not in the file. An ID is the position of the
  name in its table; the add variant appends when the lookup fails, the get variant
  never creates.
\<close>

definition GetClassIDFromName :: "FSpudClassMetadata \<Rightarrow> string \<Rightarrow> nat option" where
  "GetClassIDFromName Meta n = IndexOf n (map ClassName (ClassDefinitions Meta))"

definition GetClassDef :: "FSpudClassMetadata \<Rightarrow> string \<Rightarrow> FSpudClassDef option" where
  "GetClassDef Meta n =
     map_option (\<lambda>i. ClassDefinitions Meta ! i) (GetClassIDFromName Meta n)"

definition NewClassDef :: "string \<Rightarrow> FSpudClassDef" where
  "NewClassDef n = \<lparr>ClassName = n, Properties = [], PropertyLookup = Map.empty\<rparr>"

definition FindOrAddClassIDFromName :: "FSpudClassMetadata \<Rightarrow> string \<Rightarrow> nat \<times> FSpudClassMetadata" where
  "FindOrAddClassIDFromName Meta n =
     (case GetClassIDFromName Meta n of
        Some i \<Rightarrow> (i, Meta)
      | None \<Rightarrow> (length (ClassDefinitions Meta),
                 Meta\<lparr>ClassDefinitions := ClassDefinitions Meta @ [NewClassDef n]\<rparr>))"

definition GetClassNameFromID :: "FSpudClassMetadata \<Rightarrow> nat \<Rightarrow> string" where
  "GetClassNameFromID Meta i =
     (if i < length (ClassDefinitions Meta) then ClassName (ClassDefinitions Meta ! i) else [])"

definition GetPropertyIDFromName :: "FSpudClassMetadata \<Rightarrow> string \<Rightarrow> nat option" where
  "GetPropertyIDFromName Meta n = IndexOf n (PropertyNames Meta)"

definition FindOrAddPropertyIDFromName :: "FSpudClassMetadata \<Rightarrow> string \<Rightarrow> nat \<times> FSpudClassMetadata" where
  "FindOrAddPropertyIDFromName Meta n =
     (case GetPropertyIDFromName Meta n of
        Some i \<Rightarrow> (i, Meta)
      | None \<Rightarrow> (length (PropertyNames Meta),
                 Meta\<lparr>PropertyNames := PropertyNames Meta @ [n]\<rparr>))"

definition GetNestedPrefixID :: "PrefixID \<Rightarrow> FProperty \<Rightarrow> FSpudClassMetadata \<Rightarrow> PrefixID" where
  "GetNestedPrefixID CurrentPrefixID SProp Meta =
     (case IndexOf (CurrentPrefixID, GetPropName SProp) (NestedPrefixes Meta) of
        Some i \<Rightarrow> PrefixIndex i
      | None \<Rightarrow> SPUDDATA_INDEX_NONE)"

definition FindOrAddNestedPrefixID :: "PrefixID \<Rightarrow> FProperty \<Rightarrow> FSpudClassMetadata \<Rightarrow> PrefixID \<times> FSpudClassMetadata" where
  "FindOrAddNestedPrefixID CurrentPrefixID SProp Meta =
     (case IndexOf (CurrentPrefixID, GetPropName SProp) (NestedPrefixes Meta) of
        Some i \<Rightarrow> (PrefixIndex i, Meta)
      | None \<Rightarrow> (PrefixIndex (length (NestedPrefixes Meta)),
                 Meta\<lparr>NestedPrefixes := NestedPrefixes Meta @ [(CurrentPrefixID, GetPropName SProp)]\<rparr>))"

definition LookupPropertyIndex :: "FSpudClassDef \<Rightarrow> PrefixID \<Rightarrow> nat \<Rightarrow> int option" where
  "LookupPropertyIndex ClassDef Prefix PropID =
     (case PropertyLookup ClassDef Prefix of
        None \<Rightarrow> None
      | Some Inner \<Rightarrow> Inner PropID)"

definition FindOrAddPropertyIndex :: "FSpudClassDef \<Rightarrow> nat \<Rightarrow> PrefixID \<Rightarrow> ESpudStorageType \<Rightarrow> int \<times> FSpudClassDef" where
  "FindOrAddPropertyIndex ClassDef PropID Prefix Kind =
     (case LookupPropertyIndex ClassDef Prefix PropID of
        Some i \<Rightarrow> (i, ClassDef)
      | None \<Rightarrow>
          (let i = int (length (Properties ClassDef));
               Inner = (case PropertyLookup ClassDef Prefix of None \<Rightarrow> Map.empty | Some m \<Rightarrow> m)
           in (i, ClassDef\<lparr>Properties := Properties ClassDef @
                               [\<lparr>PropertyID = PropID, PropPrefixID = Prefix, DataType = Kind\<rparr>],
                            PropertyLookup := (PropertyLookup ClassDef)(Prefix \<mapsto> Inner(PropID \<mapsto> i))\<rparr>)))"

subsection \<open>Archives\<close>

text \<open>
  Modelled from the spec: \<^verbatim>\<open>FMemoryWriter\<close>, \<^verbatim>\<open>FMemoryReader\<close> and
  \<^verbatim>\<open>SpudPropertyUtil::WriteRaw/ReadRaw\<close> are not in the file. A writer appends the
  fixed-width image of a value to its array. A reader keeps a position and a sticky
  error: a read past the end sets the error and leaves the destination as it was,
  and every later read does nothing.
\<close>

record FMemoryReader =
  ReaderBytes :: bytes
  ReaderPos :: nat
  ReaderError :: bool

definition MemoryReader :: "bytes \<Rightarrow> FMemoryReader" where
  "MemoryReader bs = \<lparr>ReaderBytes = bs, ReaderPos = 0, ReaderError = False\<rparr>"

definition Serialize :: "nat \<Rightarrow> FMemoryReader \<Rightarrow> bytes option \<times> FMemoryReader" where
  "Serialize n In =
     (if ReaderError In then (None, In)
      else if ReaderPos In + n \<le> length (ReaderBytes In)
      then (Some (take n (drop (ReaderPos In) (ReaderBytes In))), In\<lparr>ReaderPos := ReaderPos In + n\<rparr>)
      else (None, In\<lparr>ReaderError := True\<rparr>))"

definition f32_bytes :: "float32 \<Rightarrow> bytes" where
  "f32_bytes f = (case f of (a, b, c, d) \<Rightarrow> [a, b, c, d])"

definition vector_bytes :: "FVector \<Rightarrow> bytes" where
  "vector_bytes v = (case v of (x, y, z) \<Rightarrow> f32_bytes x @ f32_bytes y @ f32_bytes z)"

definition quat_bytes :: "FQuat \<Rightarrow> bytes" where
  "quat_bytes q = (case q of (x, y, z, w) \<Rightarrow> f32_bytes x @ f32_bytes y @ f32_bytes z @ f32_bytes w)"

definition WriteRaw_uint16 :: "16 word \<Rightarrow> bytes \<Rightarrow> bytes" where
  "WriteRaw_uint16 v Out = Out @ [ucast v, ucast (drop_bit 8 v)]"

definition WriteRaw_bool :: "bool \<Rightarrow> bytes \<Rightarrow> bytes" where
  "WriteRaw_bool b Out = Out @ [if b then 1 else 0]"

definition WriteRaw_FVector :: "FVector \<Rightarrow> bytes \<Rightarrow> bytes" where
  "WriteRaw_FVector v Out = Out @ vector_bytes v"

definition WriteRaw_FTransform :: "FTransform \<Rightarrow> bytes \<Rightarrow> bytes" where
  "WriteRaw_FTransform t Out =
     Out @ quat_bytes (Rotation t) @ vector_bytes (Translation t) @ vector_bytes (Scale3D t)"

definition bytes_f32 :: "bytes \<Rightarrow> float32" where
  "bytes_f32 bs = (bs ! 0, bs ! 1, bs ! 2, bs ! 3)"

definition bytes_vector :: "bytes \<Rightarrow> FVector" where
  "bytes_vector bs = (bytes_f32 (take 4 bs), bytes_f32 (take 4 (drop 4 bs)), bytes_f32 (take 4 (drop 8 bs)))"

definition bytes_quat :: "bytes \<Rightarrow> FQuat" where
  "bytes_quat bs =
     (bytes_f32 (take 4 bs), bytes_f32 (take 4 (drop 4 bs)),
      bytes_f32 (take 4 (drop 8 bs)), bytes_f32 (take 4 (drop 12 bs)))"

text \<open>Each reader takes the current value of the destination and returns the new one.\<close>

definition ReadRaw_uint16 :: "16 word \<Rightarrow> FMemoryReader \<Rightarrow> 16 word \<times> FMemoryReader" where
  "ReadRaw_uint16 Dest In =
     (case Serialize 2 In of
        (Some bs, In') \<Rightarrow> (ucast (bs ! 0) OR push_bit 8 (ucast (bs ! 1)), In')
      | (None, In') \<Rightarrow> (Dest, In'))"

definition ReadRaw_bool :: "bool \<Rightarrow> FMemoryReader \<Rightarrow> bool \<times> FMemoryReader" where
  "ReadRaw_bool Dest In =
     (case Serialize 1 In of
        (Some bs, In') \<Rightarrow> (bs ! 0 \<noteq> 0, In')
      | (None, In') \<Rightarrow> (Dest, In'))"

definition ReadRaw_FVector :: "FVector \<Rightarrow> FMemoryReader \<Rightarrow> FVector \<times> FMemoryReader" where
  "ReadRaw_FVector Dest In =
     (case Serialize 12 In of
        (Some bs, In') \<Rightarrow> (bytes_vector bs, In')
      | (None, In') \<Rightarrow> (Dest, In'))"

definition ReadRaw_FTransform :: "FTransform \<Rightarrow> FMemoryReader \<Rightarrow> FTransform \<times> FMemoryReader" where
  "ReadRaw_FTransform Dest In =
     (case Serialize 40 In of
        (Some bs, In') \<Rightarrow>
          (\<lparr>Rotation = bytes_quat (take 16 bs),
            Translation = bytes_vector (take 12 (drop 16 bs)),
            Scale3D = bytes_vector (take 12 (drop 28 bs))\<rparr>, In')
      | (None, In') \<Rightarrow> (Dest, In'))"

subsection \<open>Environment\<close>

text \<open>
  What the file calls but does not define: class loading and spawning (engine), the
  value of \<^verbatim>\<open>FGuid::NewGuid()\<close>, the \<^verbatim>\<open>ISpudObjectCallback\<close> hooks (user code), and the
  indeterminate initial values of the uninitialised locals of \<^verbatim>\<open>RestoreCoreActorData\<close>.
  A class is given by the actor its construction yields.
\<close>

record Env =
  TryLoadClass :: "string \<Rightarrow> AActor option"
  SpawnActor :: "AActor \<Rightarrow> ULevel \<Rightarrow> AActor option"
  NewGuid :: FGuid
  SpudPreSaveState :: "AActor \<Rightarrow> AActor"
  SpudFinaliseSaveState :: "AActor \<Rightarrow> AActor \<times> bytes"
  SpudPostSaveState :: "AActor \<Rightarrow> AActor"
  SpudPreLoadState :: "AActor \<Rightarrow> AActor"
  SpudFinaliseLoadState :: "AActor \<Rightarrow> bytes \<Rightarrow> AActor"
  SpudPostLoadState :: "AActor \<Rightarrow> AActor"
  UninitBool :: bool
  UninitVector :: FVector

subsection \<open>Core actor data\<close>

definition IsHidden :: "AActor \<Rightarrow> bool" where
  "IsHidden Actor = bHidden Actor"

definition SetActorHiddenInGame :: "AActor \<Rightarrow> bool \<Rightarrow> AActor" where
  "SetActorHiddenInGame Actor h = Actor\<lparr>bHidden := h\<rparr>"

definition GetTransform :: "AActor \<Rightarrow> FTransform" where
  "GetTransform Actor =
     (case RootComponent Actor of
        None \<Rightarrow> TransformIdentity
      | Some RootComp \<Rightarrow> ComponentTransform RootComp)"

definition SetActorTransform :: "AActor \<Rightarrow> FTransform \<Rightarrow> AActor" where
  "SetActorTransform Actor t =
     (case RootComponent Actor of
        None \<Rightarrow> Actor
      | Some RootComp \<Rightarrow> Actor\<lparr>RootComponent := Some (RootComp\<lparr>ComponentTransform := t\<rparr>)\<rparr>)"

definition WriteCoreActorData :: "AActor \<Rightarrow> bytes \<Rightarrow> bytes" where
  "WriteCoreActorData Actor Out =
     (let CoreDataVersion = (1 :: 16 word);
          Out1 = WriteRaw_uint16 CoreDataVersion Out;
          Out2 = WriteRaw_bool (IsHidden Actor) Out1;
          Out3 = WriteRaw_FTransform (GetTransform Actor) Out2;
          (Velocity, AngularVelocity) =
            (case RootComponent Actor of
               None \<Rightarrow> (ZeroVector, ZeroVector)
             | Some RootComp \<Rightarrow>
                 if Mobility RootComp = Movable \<and> SimulatingPhysics RootComp
                 then (if IsPrimitiveComponent RootComp
                       then (PhysicsLinearVelocity RootComp, PhysicsAngularVelocity RootComp)
                       else (ZeroVector, ZeroVector))
                 else (ZeroVector, ZeroVector));
          Out4 = WriteRaw_FVector Velocity Out3
      in WriteRaw_FVector AngularVelocity Out4)"

definition RestoreCoreActorData :: "Env \<Rightarrow> AActor \<Rightarrow> bytes \<Rightarrow> AActor \<times> log_line list" where
  "RestoreCoreActorData env Actor FromData =
     (let In = MemoryReader FromData;
          (InVersion, In1) = ReadRaw_uint16 0 In
      in if InVersion = 1
         then
           (let (Hidden, In2) = ReadRaw_bool (UninitBool env) In1;
                Actor1 = SetActorHiddenInGame Actor Hidden;
                (XForm, In3) = ReadRaw_FTransform TransformIdentity In2;
                Actor2 = SetActorTransform Actor1 XForm;
                (Velocity, In4) = ReadRaw_FVector (UninitVector env) In3;
                (AngularVelocity, In5) = ReadRaw_FVector (UninitVector env) In4
            in (case RootComponent Actor2 of
                  None \<Rightarrow> (Actor2, [])
                | Some RootComp \<Rightarrow>
                    if Mobility RootComp = Movable \<and> SimulatingPhysics RootComp
                    then (if IsPrimitiveComponent RootComp
                          then (Actor2\<lparr>RootComponent :=
                                   Some (RootComp\<lparr>PhysicsLinearVelocity := Velocity,
                                                  PhysicsAngularVelocity := AngularVelocity\<rparr>)\<rparr>, [])
                          else (Actor2, []))
                    else (Actor2, [])))
         else (Actor, [(Error, ''Core Actor Data is corrupt, not restoring'', [ActorName Actor])]))"

subsection \<open>Property visitor framework\<close>

text \<open>
  Modelled from the spec: \<^verbatim>\<open>SpudPropertyUtil::VisitPersistentProperties\<close> is not in the
  file (section 4.2). It walks the persistent properties of the class in order. A
  supported property is handed to \<^verbatim>\<open>VisitProperty\<close>; a custom struct is visited itself
  and then expanded under the prefix \<^verbatim>\<open>GetNestedPrefix\<close> returns, one level deeper; an
  unsupported property goes to \<^verbatim>\<open>UnsupportedProperty\<close>. A visitor that returns false
  stops the walk. The container pointer is the path of the enclosing structs.
\<close>

record 's PropertyVisitor =
  VisitProperty :: "FProperty \<Rightarrow> PrefixID \<Rightarrow> string list \<Rightarrow> nat \<Rightarrow> 's \<Rightarrow> bool \<times> 's"
  UnsupportedProperty :: "FProperty \<Rightarrow> PrefixID \<Rightarrow> nat \<Rightarrow> 's \<Rightarrow> 's"
  GetNestedPrefix :: "FProperty \<Rightarrow> PrefixID \<Rightarrow> 's \<Rightarrow> PrefixID \<times> 's"

fun VisitProperties :: "'s PropertyVisitor \<Rightarrow> FProperty list \<Rightarrow> PrefixID \<Rightarrow> string list \<Rightarrow> nat \<Rightarrow> 's \<Rightarrow> bool \<times> 's"
  and VisitOneProperty :: "'s PropertyVisitor \<Rightarrow> FProperty \<Rightarrow> PrefixID \<Rightarrow> string list \<Rightarrow> nat \<Rightarrow> 's \<Rightarrow> bool \<times> 's"
where
  "VisitProperties V [] px c d s = (True, s)"
| "VisitProperties V (p # ps) px c d s =
     (case VisitOneProperty V p px c d s of
        (True, s') \<Rightarrow> VisitProperties V ps px c d s'
      | (False, s') \<Rightarrow> (False, s'))"
| "VisitOneProperty V (PrimitiveProperty n k) px c d s =
     VisitProperty V (PrimitiveProperty n k) px c d s"
| "VisitOneProperty V (UnsupportedKindProperty n) px c d s =
     (True, UnsupportedProperty V (UnsupportedKindProperty n) px d s)"
| "VisitOneProperty V (CustomStructProperty n fs) px c d s =
     (case VisitProperty V (CustomStructProperty n fs) px c d s of
        (False, s') \<Rightarrow> (False, s')
      | (True, s') \<Rightarrow>
          (case GetNestedPrefix V (CustomStructProperty n fs) px s' of
             (NewPrefixID, s'') \<Rightarrow> VisitProperties V fs NewPrefixID (c @ [n]) (d + 1) s''))"

definition VisitPersistentProperties :: "AActor \<Rightarrow> 's PropertyVisitor \<Rightarrow> 's \<Rightarrow> bool \<times> 's" where
  "VisitPersistentProperties Obj V s =
     VisitProperties V (ClassProperties Obj) SPUDDATA_PREFIXID_NONE [] 0 s"

subsection \<open>Snapshot visitor\<close>

text \<open>The state of \<^verbatim>\<open>UpdateFromPropertyVisitor\<close>: the metadata (the class definition is
  the entry \<open>ClassIdx\<close> of it), the offsets, the output array and the log.\<close>

record UpdateState =
  usMeta :: FSpudClassMetadata
  usOffsets :: "nat list"
  usOut :: bytes
  usLog :: "log_line list"

definition SetOffset :: "nat list \<Rightarrow> nat \<Rightarrow> nat \<Rightarrow> nat list" where
  "SetOffset offs i v =
     (if i < length offs then offs[i := v]
      else offs @ replicate (i - length offs) 0 @ [v])"

definition RawImage :: "ESpudStorageType \<Rightarrow> bytes \<Rightarrow> bytes" where
  "RawImage k v = take (StorageSize k) (v @ replicate (StorageSize k) 0)"

text \<open>
  Modelled from the spec: \<^verbatim>\<open>SpudPropertyUtil::UpdateFromProperty\<close> is not in the file
  (sections 3 and 4.3). A leaf registers its name and its slot in the class
  definition, records the current write position as the offset of that slot and
  appends its raw bytes. A custom struct writes nothing itself.
\<close>

definition UpdateFromProperty :: "AActor \<Rightarrow> FProperty \<Rightarrow> PrefixID \<Rightarrow> string list \<Rightarrow> nat \<Rightarrow> UpdateState \<Rightarrow> UpdateState" where
  "UpdateFromProperty RootObject Prop CurrentPrefixID ContainerPtr ClassIdx s =
     (case Prop of
        PrimitiveProperty n k \<Rightarrow>
          (let (PropID, Meta1) = FindOrAddPropertyIDFromName (usMeta s) n;
               (Index, ClassDef') =
                 FindOrAddPropertyIndex (ClassDefinitions Meta1 ! ClassIdx) PropID CurrentPrefixID k;
               Meta2 = Meta1\<lparr>ClassDefinitions := (ClassDefinitions Meta1)[ClassIdx := ClassDef']\<rparr>
           in s\<lparr>usMeta := Meta2,
                usOffsets := SetOffset (usOffsets s) (nat Index) (length (usOut s)),
                usOut := usOut s @ RawImage k (PropertyValues RootObject (ContainerPtr @ [n]))\<rparr>)
      | CustomStructProperty n fs \<Rightarrow> s
      | UnsupportedKindProperty n \<Rightarrow> s)"

definition UpdateFromPropertyVisitor_VisitProperty :: "AActor \<Rightarrow> nat \<Rightarrow> FProperty \<Rightarrow> PrefixID \<Rightarrow> string list \<Rightarrow> nat \<Rightarrow> UpdateState \<Rightarrow> bool \<times> UpdateState" where
  "UpdateFromPropertyVisitor_VisitProperty RootObject ClassIdx Prop CurrentPrefixID ContainerPtr Depth s =
     (True, UpdateFromProperty RootObject Prop CurrentPrefixID ContainerPtr ClassIdx s)"

definition UpdateFromPropertyVisitor_UnsupportedProperty :: "AActor \<Rightarrow> FProperty \<Rightarrow> PrefixID \<Rightarrow> nat \<Rightarrow> UpdateState \<Rightarrow> UpdateState" where
  "UpdateFromPropertyVisitor_UnsupportedProperty RootObject Prop CurrentPrefixID Depth s =
     s\<lparr>usLog := usLog s @
        [(Error, ''Property is marked for save but is an unsupported type, ignoring'',
          [ActorName RootObject, GetPropName Prop])]\<rparr>"

definition UpdateFromPropertyVisitor_GetNestedPrefix :: "FProperty \<Rightarrow> PrefixID \<Rightarrow> UpdateState \<Rightarrow> PrefixID \<times> UpdateState" where
  "UpdateFromPropertyVisitor_GetNestedPrefix SProp CurrentPrefixID s =
     (case FindOrAddNestedPrefixID CurrentPrefixID SProp (usMeta s) of
        (NewPrefixID, Meta') \<Rightarrow> (NewPrefixID, s\<lparr>usMeta := Meta'\<rparr>))"

definition UpdateFromPropertyVisitor :: "AActor \<Rightarrow> nat \<Rightarrow> UpdateState PropertyVisitor" where
  "UpdateFromPropertyVisitor RootObject ClassIdx =
     \<lparr>VisitProperty = UpdateFromPropertyVisitor_VisitProperty RootObject ClassIdx,
      UnsupportedProperty = UpdateFromPropertyVisitor_UnsupportedProperty RootObject,
      GetNestedPrefix = UpdateFromPropertyVisitor_GetNestedPrefix\<rparr>"

subsection \<open>Restore visitors\<close>

text \<open>The state of a restore visitor: the object being written, the reader, the
  stored-property iterator (fast path only), the log, and whether the iterator was
  dereferenced past the end of the stored list (a checked array access).\<close>

record RestoreState =
  rsActor :: AActor
  rsIn :: FMemoryReader
  rsIter :: nat
  rsLog :: "log_line list"
  rsFault :: bool

definition SetPropertyValue :: "AActor \<Rightarrow> string list \<Rightarrow> bytes \<Rightarrow> AActor" where
  "SetPropertyValue Obj addr v = Obj\<lparr>PropertyValues := (PropertyValues Obj)(addr := v)\<rparr>"

text \<open>
  Modelled from the spec: \<^verbatim>\<open>SpudPropertyUtil::RestoreProperty\<close> is not in the file
  (section 4.4). The value is decoded by the kind of the runtime property from the
  current position of the reader; when the stored kind differs the property is
  skipped with a warning. A custom struct has no value of its own.
\<close>

definition RestoreProperty :: "FProperty \<Rightarrow> string list \<Rightarrow> FSpudPropertyDef \<Rightarrow> (FGuid \<rightharpoonup> string) option \<Rightarrow> RestoreState \<Rightarrow> RestoreState" where
  "RestoreProperty Prop ContainerPtr StoredProperty RuntimeObjects s =
     (case Prop of
        PrimitiveProperty n k \<Rightarrow>
          if DataType StoredProperty \<noteq> k
          then s\<lparr>rsLog := rsLog s @ [(Warning, ''Property type mismatch, skipping'', [n])]\<rparr>
          else (case Serialize (StorageSize k) (rsIn s) of
                  (Some bs, In') \<Rightarrow>
                    s\<lparr>rsActor := SetPropertyValue (rsActor s) (ContainerPtr @ [n]) bs, rsIn := In'\<rparr>
                | (None, In') \<Rightarrow> s\<lparr>rsIn := In'\<rparr>)
      | CustomStructProperty n fs \<Rightarrow> s
      | UnsupportedKindProperty n \<Rightarrow> s)"

definition RestorePropertyVisitor_GetNestedPrefix :: "FSpudClassMetadata \<Rightarrow> FProperty \<Rightarrow> PrefixID \<Rightarrow> RestoreState \<Rightarrow> PrefixID \<times> RestoreState" where
  "RestorePropertyVisitor_GetNestedPrefix Meta SProp CurrentPrefixID s =
     (GetNestedPrefixID CurrentPrefixID SProp Meta, s)"

definition RestorePropertyVisitor_UnsupportedProperty :: "FProperty \<Rightarrow> PrefixID \<Rightarrow> nat \<Rightarrow> RestoreState \<Rightarrow> RestoreState" where
  "RestorePropertyVisitor_UnsupportedProperty Prop CurrentPrefixID Depth s = s"

definition RestoreFastPropertyVisitor_VisitProperty :: "FSpudClassDef \<Rightarrow> (FGuid \<rightharpoonup> string) option \<Rightarrow> FProperty \<Rightarrow> PrefixID \<Rightarrow> string list \<Rightarrow> nat \<Rightarrow> RestoreState \<Rightarrow> bool \<times> RestoreState" where
  "RestoreFastPropertyVisitor_VisitProperty ClassDef RuntimeObjects Prop CurrentPrefixID ContainerPtr Depth s =
     (if rsIter s < length (Properties ClassDef)
      then
        (let StoredProperty = Properties ClassDef ! rsIter s;
             s1 = RestoreProperty Prop ContainerPtr StoredProperty RuntimeObjects s
         in if \<not> IsCustomStructProperty Prop
            then (True, s1\<lparr>rsIter := rsIter s1 + 1\<rparr>)
            else (True, s1))
      else (False, s\<lparr>rsFault := True\<rparr>))"

definition RestoreSlowPropertyVisitor_VisitProperty :: "FSpudClassDef \<Rightarrow> FSpudClassMetadata \<Rightarrow> (FGuid \<rightharpoonup> string) option \<Rightarrow> FProperty \<Rightarrow> PrefixID \<Rightarrow> string list \<Rightarrow> nat \<Rightarrow> RestoreState \<Rightarrow> bool \<times> RestoreState" where
  "RestoreSlowPropertyVisitor_VisitProperty ClassDef Meta RuntimeObjects Prop CurrentPrefixID ContainerPtr Depth s =
     (if IsCustomStructProperty Prop then (True, s)
      else
        (case PropertyLookup ClassDef CurrentPrefixID of
           None \<Rightarrow>
             (True, s\<lparr>rsLog := rsLog s @
                [(Error, ''Error in RestoreSlowPropertyVisitor, PrefixID invalid'',
                  [GetPropName Prop, ClassName ClassDef])]\<rparr>)
         | Some InnerMap \<Rightarrow>
             (case GetPropertyIDFromName Meta (GetPropName Prop) of
                None \<Rightarrow>
                  (True, s\<lparr>rsLog := rsLog s @
                     [(Warning, ''Skipping property, not found in class definition'',
                       [GetPropName Prop, ClassName ClassDef])]\<rparr>)
              | Some PropID \<Rightarrow>
                  (case InnerMap PropID of
                     None \<Rightarrow>
                       (True, s\<lparr>rsLog := rsLog s @
                          [(Warning, ''Skipping property, data not found'',
                            [GetPropName Prop, ClassName ClassDef])]\<rparr>)
                   | Some PropertyIndex \<Rightarrow>
                       if PropertyIndex < 0 \<or> PropertyIndex \<ge> int (length (Properties ClassDef))
                       then
                         (True, s\<lparr>rsLog := rsLog s @
                            [(Error, ''Error in RestoreSlowPropertyVisitor, invalid property index'',
                              [GetPropName Prop, ClassName ClassDef])]\<rparr>)
                       else
                         (let StoredProperty = Properties ClassDef ! nat PropertyIndex
                          in (True, RestoreProperty Prop ContainerPtr StoredProperty RuntimeObjects s))))))"

definition RestoreFastPropertyVisitor :: "FSpudClassDef \<Rightarrow> FSpudClassMetadata \<Rightarrow> (FGuid \<rightharpoonup> string) option \<Rightarrow> RestoreState PropertyVisitor" where
  "RestoreFastPropertyVisitor ClassDef Meta RuntimeObjects =
     \<lparr>VisitProperty = RestoreFastPropertyVisitor_VisitProperty ClassDef RuntimeObjects,
      UnsupportedProperty = RestorePropertyVisitor_UnsupportedProperty,
      GetNestedPrefix = RestorePropertyVisitor_GetNestedPrefix Meta\<rparr>"

definition RestoreSlowPropertyVisitor :: "FSpudClassDef \<Rightarrow> FSpudClassMetadata \<Rightarrow> (FGuid \<rightharpoonup> string) option \<Rightarrow> RestoreState PropertyVisitor" where
  "RestoreSlowPropertyVisitor ClassDef Meta RuntimeObjects =
     \<lparr>VisitProperty = RestoreSlowPropertyVisitor_VisitProperty ClassDef Meta RuntimeObjects,
      UnsupportedProperty = RestorePropertyVisitor_UnsupportedProperty,
      GetNestedPrefix = RestorePropertyVisitor_GetNestedPrefix Meta\<rparr>"

subsection \<open>Choosing the restore path\<close>

text \<open>
  Modelled from the spec: \<^verbatim>\<open>FSpudClassDef::MatchesRuntimeClass\<close> is not in the file
  (section 4.4). The stored property sequence matches when walking the runtime
  class meets, leaf by leaf, the stored definitions in order with the same name and
  the same prefix, and no stored definition is left over.
\<close>

record MatchState =
  msIter :: nat
  msMatches :: bool

definition MatchVisitor_VisitProperty :: "FSpudClassDef \<Rightarrow> FSpudClassMetadata \<Rightarrow> FProperty \<Rightarrow> PrefixID \<Rightarrow> string list \<Rightarrow> nat \<Rightarrow> MatchState \<Rightarrow> bool \<times> MatchState" where
  "MatchVisitor_VisitProperty ClassDef Meta Prop CurrentPrefixID ContainerPtr Depth s =
     (if IsCustomStructProperty Prop then (True, s)
      else if msIter s < length (Properties ClassDef) \<and>
              GetPropertyIDFromName Meta (GetPropName Prop) =
                Some (PropertyID (Properties ClassDef ! msIter s)) \<and>
              PropPrefixID (Properties ClassDef ! msIter s) = CurrentPrefixID
      then (True, s\<lparr>msIter := msIter s + 1\<rparr>)
      else (False, s\<lparr>msMatches := False\<rparr>))"

definition MatchVisitor :: "FSpudClassDef \<Rightarrow> FSpudClassMetadata \<Rightarrow> MatchState PropertyVisitor" where
  "MatchVisitor ClassDef Meta =
     \<lparr>VisitProperty = MatchVisitor_VisitProperty ClassDef Meta,
      UnsupportedProperty = (\<lambda>p px d s. s),
      GetNestedPrefix = (\<lambda>SProp px s. (GetNestedPrefixID px SProp Meta, s))\<rparr>"

definition MatchesRuntimeClass :: "FSpudClassDef \<Rightarrow> FSpudClassMetadata \<Rightarrow> AActor \<Rightarrow> bool" where
  "MatchesRuntimeClass ClassDef Meta Obj =
     (case VisitPersistentProperties Obj (MatchVisitor ClassDef Meta)
             \<lparr>msIter = 0, msMatches = True\<rparr> of
        (c, s) \<Rightarrow> msMatches s \<and> msIter s = length (Properties ClassDef))"

definition RestoreObjectPropertiesFast :: "AActor \<Rightarrow> FSpudPropertyData \<Rightarrow> FSpudClassMetadata \<Rightarrow> FSpudClassDef \<Rightarrow> (FGuid \<rightharpoonup> string) option \<Rightarrow> AActor \<times> log_line list \<times> bool" where
  "RestoreObjectPropertiesFast Obj FromData Meta ClassDef RuntimeObjects =
     (let In = MemoryReader (PropData FromData);
          s0 = \<lparr>rsActor = Obj, rsIn = In, rsIter = 0,
                rsLog = [(Verbose, ''Restoring properties via FAST path'', [ClassName ClassDef])],
                rsFault = False\<rparr>
      in case VisitPersistentProperties Obj (RestoreFastPropertyVisitor ClassDef Meta RuntimeObjects) s0 of
           (c, s) \<Rightarrow> (rsActor s, rsLog s, rsFault s))"

definition RestoreObjectPropertiesSlow :: "AActor \<Rightarrow> FSpudPropertyData \<Rightarrow> FSpudClassMetadata \<Rightarrow> FSpudClassDef \<Rightarrow> (FGuid \<rightharpoonup> string) option \<Rightarrow> AActor \<times> log_line list \<times> bool" where
  "RestoreObjectPropertiesSlow Obj FromData Meta ClassDef RuntimeObjects =
     (let In = MemoryReader (PropData FromData);
          s0 = \<lparr>rsActor = Obj, rsIn = In, rsIter = 0,
                rsLog = [(Verbose, ''Restoring properties via SLOW path'', [ClassName ClassDef])],
                rsFault = False\<rparr>
      in case VisitPersistentProperties Obj (RestoreSlowPropertyVisitor ClassDef Meta RuntimeObjects) s0 of
           (c, s) \<Rightarrow> (rsActor s, rsLog s, rsFault s))"

definition RestoreObjectProperties :: "AActor \<Rightarrow> FSpudPropertyData \<Rightarrow> FSpudClassMetadata \<Rightarrow> (FGuid \<rightharpoonup> string) option \<Rightarrow> AActor \<times> log_line list \<times> bool" where
  "RestoreObjectProperties Obj FromData Meta RuntimeObjects =
     (case GetClassDef Meta (GetClassName Obj) of
        None \<Rightarrow> (Obj, [(Error, ''Unable to find ClassDef for'', [GetClassName Obj])], False)
      | Some ClassDef \<Rightarrow>
          (let bUseFastPath = MatchesRuntimeClass ClassDef Meta Obj
           in if bUseFastPath
              then RestoreObjectPropertiesFast Obj FromData Meta ClassDef RuntimeObjects
              else RestoreObjectPropertiesSlow Obj FromData Meta ClassDef RuntimeObjects))"

subsection \<open>Finding and creating records\<close>

definition GetLevelData :: "FSpudSaveData \<Rightarrow> string \<Rightarrow> bool \<Rightarrow> FSpudLevelData option \<times> FSpudSaveData" where
  "GetLevelData SaveData LevelName AutoCreate =
     (case LevelDataMap SaveData LevelName of
        Some Ret \<Rightarrow> (Some Ret, SaveData)
      | None \<Rightarrow>
          if AutoCreate
          then (Some (NewLevelData LevelName),
                SaveData\<lparr>LevelDataMap := (LevelDataMap SaveData)(LevelName \<mapsto> NewLevelData LevelName)\<rparr>)
          else (None, SaveData))"

definition GetLevelActorData :: "AActor \<Rightarrow> FSpudLevelData \<Rightarrow> bool \<Rightarrow> FSpudNamedObjectData option \<times> FSpudLevelData" where
  "GetLevelActorData Actor LevelData AutoCreate =
     (let Name = GetLevelActorName Actor
      in case LevelActors LevelData Name of
           Some Ret \<Rightarrow> (Some Ret, LevelData)
         | None \<Rightarrow>
             if AutoCreate
             then (Some (NewNamedObjectData Name),
                   LevelData\<lparr>LevelActors := (LevelActors LevelData)(Name \<mapsto> NewNamedObjectData Name)\<rparr>)
             else (None, LevelData))"

definition MissingGuidLog :: "AActor \<Rightarrow> log_line list" where
  "MissingGuidLog Actor =
     [(Error, ''Ignoring runtime actor, missing or blank SpudGuid property'', [ActorName Actor]),
      (Error, ''Runtime spawned actors should have a SpudGuid property to identify them'', []),
      (Error, ''NOTE: the cause of this false detection might be that you have not SAVED the level'', [])]"

text \<open>The result carries the actor (its SpudGuid may have been set), the level data
  (a record may have been created) and the key and contents of the record found.\<close>

definition GetSpawnedActorData :: "Env \<Rightarrow> AActor \<Rightarrow> FSpudLevelData \<Rightarrow> bool \<Rightarrow> AActor \<times> FSpudLevelData \<times> (FGuid \<times> FSpudSpawnedActorData) option \<times> log_line list" where
  "GetSpawnedActorData env Actor LevelData AutoCreate =
     (let Guid0 = GetGuidProperty Actor;
          GuidOk0 = Guid_IsValid Guid0;
          (Guid1, GuidOk, Actor1) =
            (if \<not> GuidOk0 \<and> AutoCreate
             then (case SetGuidProperty Actor (NewGuid env) of
                     (ok, Actor') \<Rightarrow> (NewGuid env, ok, Actor'))
             else (Guid0, GuidOk0, Actor))
      in if \<not> GuidOk
         then (Actor1, LevelData, None, MissingGuidLog Actor1)
         else
           (case map_of (SpawnedActors LevelData) Guid1 of
              Some Ret \<Rightarrow> (Actor1, LevelData, Some (Guid1, Ret), [])
            | None \<Rightarrow>
                if AutoCreate
                then
                  (case FindOrAddClassIDFromName (Metadata LevelData) (GetClassName Actor1) of
                     (cid, Meta') \<Rightarrow>
                       (Actor1,
                        LevelData\<lparr>SpawnedActors := SpawnedActors LevelData @ [(Guid1, NewSpawnedActorData Guid1 cid)],
                                  Metadata := Meta'\<rparr>,
                        Some (Guid1, NewSpawnedActorData Guid1 cid), []))
                else (Actor1, LevelData, None, [])))"

subsection \<open>Snapshot of an actor\<close>

text \<open>The body of \<^verbatim>\<open>UpdateFromActor\<close> after the destination record is known (from
  \<^verbatim>\<open>pDestPropertyData->Empty()\<close> to the end), on the record the pointers refer to.\<close>

definition UpdateFromActor_Write :: "Env \<Rightarrow> AActor \<Rightarrow> nat \<Rightarrow> FSpudClassMetadata \<Rightarrow> 'a FSpudObjectData_scheme \<Rightarrow> AActor \<times> FSpudClassMetadata \<times> 'a FSpudObjectData_scheme \<times> log_line list" where
  "UpdateFromActor_Write env Actor ClassIdx Meta ActorData =
     (let bIsCallback = ImplementsSpudObjectCallback Actor;
          Actor1 = (if bIsCallback then SpudPreSaveState env Actor else Actor);
          CoreOut = WriteCoreActorData Actor1 [];
          s0 = \<lparr>usMeta = Meta, usOffsets = PropertyOffsets (ObjProperties ActorData),
                usOut = [], usLog = []\<rparr>
      in case VisitPersistentProperties Actor1 (UpdateFromPropertyVisitor Actor1 ClassIdx) s0 of
           (c, s) \<Rightarrow>
             (let Data1 = ActorData\<lparr>CoreData := CoreOut,
                                    ObjProperties := \<lparr>PropertyOffsets = usOffsets s, PropData = usOut s\<rparr>\<rparr>
              in if bIsCallback
                 then (case SpudFinaliseSaveState env Actor1 of
                         (Actor2, Custom) \<Rightarrow>
                           (SpudPostSaveState env Actor2, usMeta s, Data1\<lparr>CustomData := Custom\<rparr>, usLog s))
                 else (Actor1, usMeta s, Data1, usLog s)))"

definition UpdateFromActor :: "Env \<Rightarrow> AActor \<Rightarrow> FSpudLevelData \<Rightarrow> AActor \<times> FSpudLevelData \<times> log_line list" where
  "UpdateFromActor env Actor LevelData =
     (if HasAnyFlags Actor [RF_ClassDefaultObject, RF_ArchetypeObject, RF_BeginDestroyed]
      then (Actor, LevelData, [])
      else
        (let bRespawn = ShouldActorBeRespawnedOnRestore Actor
         in case FindOrAddClassIDFromName (Metadata LevelData) (GetClassName Actor) of
              (ClassIdx, Meta0) \<Rightarrow>
                (let LevelData0 = LevelData\<lparr>Metadata := Meta0\<rparr>
                 in if bRespawn
                    then
                      (case GetSpawnedActorData env Actor LevelData0 True of
                         (Actor1, LevelData1, None, log1) \<Rightarrow> (Actor1, LevelData1, log1)
                       | (Actor1, LevelData1, Some (Key, ActorData), log1) \<Rightarrow>
                           (case UpdateFromActor_Write env Actor1 ClassIdx (Metadata LevelData1) ActorData of
                              (Actor2, Meta2, ActorData2, log2) \<Rightarrow>
                                (Actor2,
                                 LevelData1\<lparr>Metadata := Meta2,
                                            SpawnedActors := AList.update Key ActorData2 (SpawnedActors LevelData1)\<rparr>,
                                 log1 @ [(Verbose, ''* Runtime object'', [GetLevelActorName Actor1])] @ log2)))
                    else
                      (case GetLevelActorData Actor LevelData0 True of
                         (None, LevelData1) \<Rightarrow> (Actor, LevelData1, [])
                       | (Some ActorData, LevelData1) \<Rightarrow>
                           (case UpdateFromActor_Write env Actor ClassIdx (Metadata LevelData1) ActorData of
                              (Actor2, Meta2, ActorData2, log2) \<Rightarrow>
                                (Actor2,
                                 LevelData1\<lparr>Metadata := Meta2,
                                            LevelActors := (LevelActors LevelData1)(GetLevelActorName Actor \<mapsto> ActorData2)\<rparr>,
                                 [(Verbose, ''* Level object'', [LevelDataName LevelData, ObjName ActorData])] @ log2))))))"

text \<open>The overload that resolves the level from the actor.\<close>

definition UpdateFromActor_Obj :: "Env \<Rightarrow> AActor \<Rightarrow> FSpudSaveData \<Rightarrow> AActor \<times> FSpudSaveData \<times> log_line list" where
  "UpdateFromActor_Obj env Obj SaveData =
     (if HasAnyFlags Obj [RF_ClassDefaultObject, RF_ArchetypeObject, RF_BeginDestroyed]
      then (Obj, SaveData, [])
      else
        (let LevelName = GetLevelNameForObject (OutermostName Obj)
         in case GetLevelData SaveData LevelName True of
              (None, SaveData1) \<Rightarrow> (Obj, SaveData1, [])
            | (Some LevelData, SaveData1) \<Rightarrow>
                (case UpdateFromActor env Obj LevelData of
                   (Obj', LevelData', log) \<Rightarrow>
                     (Obj', SaveData1\<lparr>LevelDataMap := (LevelDataMap SaveData1)(LevelName \<mapsto> LevelData')\<rparr>, log))))"

subsection \<open>Restore of an actor\<close>

definition PreRestoreObject :: "Env \<Rightarrow> AActor \<Rightarrow> AActor" where
  "PreRestoreObject env Obj =
     (if ImplementsSpudObjectCallback Obj then SpudPreLoadState env Obj else Obj)"

definition PostRestoreObject :: "Env \<Rightarrow> AActor \<Rightarrow> bytes \<Rightarrow> AActor" where
  "PostRestoreObject env Obj FromCustomData =
     (if ImplementsSpudObjectCallback Obj
      then SpudPostLoadState env (SpudFinaliseLoadState env Obj FromCustomData)
      else Obj)"

text \<open>The third component of the result tells that the restore stopped at an
  out-of-range access to the stored property list.\<close>

definition RestoreActor :: "Env \<Rightarrow> AActor \<Rightarrow> FSpudLevelData \<Rightarrow> (FGuid \<rightharpoonup> string) option \<Rightarrow> AActor \<times> log_line list \<times> bool" where
  "RestoreActor env Actor LevelData RuntimeObjects =
     (if HasAnyFlags Actor [RF_ClassDefaultObject, RF_ArchetypeObject, RF_BeginDestroyed]
      then (Actor, [], False)
      else
        (let bRespawned = ShouldActorBeRespawnedOnRestore Actor;
             (Actor0, ActorData, log0) =
               (if bRespawned
                then (case GetSpawnedActorData env Actor LevelData False of
                        (Actor', LevelData', Found, log) \<Rightarrow>
                          (Actor', map_option (\<lambda>(Key, d). FSpudObjectData.truncate d) Found, log))
                else (case GetLevelActorData Actor LevelData False of
                        (Found, LevelData') \<Rightarrow> (Actor, map_option FSpudObjectData.truncate Found, [])))
         in case ActorData of
              None \<Rightarrow> (Actor0, log0, False)
            | Some Data \<Rightarrow>
                (let Actor1 = PreRestoreObject env Actor0
                 in case RestoreCoreActorData env Actor1 (CoreData Data) of
                      (Actor2, log2) \<Rightarrow>
                        (case RestoreObjectProperties Actor2 (ObjProperties Data) (Metadata LevelData) RuntimeObjects of
                           (Actor3, log3, Fault) \<Rightarrow>
                             (let log = log0 @ [(Verbose, ''Restoring Actor'', [ActorName Actor0])] @ log2 @ log3
                              in if Fault then (Actor3, log, True)
                                 else (PostRestoreObject env Actor3 (CustomData Data), log, False))))))"

text \<open>The overload that resolves the level from the actor.\<close>

definition RestoreActor_Obj :: "Env \<Rightarrow> AActor \<Rightarrow> FSpudSaveData \<Rightarrow> AActor \<times> FSpudSaveData \<times> log_line list \<times> bool" where
  "RestoreActor_Obj env Actor SaveData =
     (if HasAnyFlags Actor [RF_ClassDefaultObject, RF_ArchetypeObject, RF_BeginDestroyed]
      then (Actor, SaveData, [], False)
      else
        (let LevelName = GetLevelNameForObject (OutermostName Actor)
         in case GetLevelData SaveData LevelName False of
              (None, SaveData1) \<Rightarrow>
                (Actor, SaveData1, [(Error, ''Unable to restore Actor, missing level data'', [ActorName Actor])], False)
            | (Some LevelData, SaveData1) \<Rightarrow>
                (case RestoreActor env Actor LevelData None of
                   (Actor', log, Fault) \<Rightarrow> (Actor', SaveData1, log, Fault))))"

subsection \<open>Restore of a level\<close>

text \<open>Calls made while a level is restored, in order: each respawn with the GUID of
  the stored record and the name of the actor spawned (if any), each
  \<^verbatim>\<open>RestoreActor\<close> with the identity table it is handed, and each
  \<^verbatim>\<open>World->DestroyActor\<close>. An object pointer is the name of the actor.\<close>

datatype RestoreEvent =
    RespawnActorCall FGuid "string option"
  | RestoreActorCall string "FGuid \<rightharpoonup> string"
  | WorldDestroyActorCall string

definition RespawnActor :: "Env \<Rightarrow> FSpudSpawnedActorData \<Rightarrow> FSpudClassMetadata \<Rightarrow> ULevel \<Rightarrow> AActor option \<times> ULevel \<times> log_line list" where
  "RespawnActor env SpawnedActor Meta Level =
     (let ClassName = GetClassNameFromID Meta (ClassID SpawnedActor)
      in case TryLoadClass env ClassName of
           None \<Rightarrow> (None, Level, [(Error, ''Cannot respawn instance, class not found'', [ClassName])])
         | Some Class \<Rightarrow>
             (case SpawnActor env Class Level of
                None \<Rightarrow> (None, Level, [])
              | Some Actor \<Rightarrow>
                  (case SetGuidProperty Actor (Guid SpawnedActor) of
                     (ok, Actor') \<Rightarrow>
                       (Some Actor', Level\<lparr>Actors := Actors Level @ [Actor']\<rparr>,
                        if ok then []
                        else [(Error, ''Re-spawned a runtime actor but it is missing a SpudGuid property'', [ClassName])]))))"

text \<open>
  Modelled from the spec: \<^verbatim>\<open>StaticFindObject\<close> and \<^verbatim>\<open>UWorld::DestroyActor\<close> are engine
  calls (section 4.5, step c): the live actor of the level with that name is located
  and removed from the level.
\<close>

definition StaticFindObject :: "ULevel \<Rightarrow> string \<Rightarrow> AActor option" where
  "StaticFindObject Level n = find (\<lambda>a. ActorName a = n) (Actors Level)"

definition World_DestroyActor :: "ULevel \<Rightarrow> AActor \<Rightarrow> ULevel" where
  "World_DestroyActor Level Actor = Level\<lparr>Actors := remove1 Actor (Actors Level)\<rparr>"

definition DestroyActor :: "string \<Rightarrow> ULevel \<Rightarrow> ULevel \<times> RestoreEvent list" where
  "DestroyActor DestroyedActorName Level =
     (case StaticFindObject Level DestroyedActorName of
        Some Actor \<Rightarrow> (World_DestroyActor Level Actor, [WorldDestroyActorCall (ActorName Actor)])
      | None \<Rightarrow> (Level, []))"

text \<open>The first loop of \<^verbatim>\<open>RestoreLevel\<close>, over the stored spawned actors.\<close>

fun RespawnLoop :: "Env \<Rightarrow> FSpudClassMetadata \<Rightarrow> (FGuid \<times> FSpudSpawnedActorData) list \<Rightarrow> ULevel \<Rightarrow> (FGuid \<rightharpoonup> string) \<Rightarrow> ULevel \<times> (FGuid \<rightharpoonup> string) \<times> log_line list \<times> RestoreEvent list" where
  "RespawnLoop env Meta [] Level RuntimeObjectsByGuid = (Level, RuntimeObjectsByGuid, [], [])"
| "RespawnLoop env Meta (SpawnedActor # rest) Level RuntimeObjectsByGuid =
     (case RespawnActor env (snd SpawnedActor) Meta Level of
        (Actor, Level1, log1) \<Rightarrow>
          (let Table1 = (case Actor of
                           Some a \<Rightarrow> RuntimeObjectsByGuid(Guid (snd SpawnedActor) \<mapsto> ActorName a)
                         | None \<Rightarrow> RuntimeObjectsByGuid)
           in case RespawnLoop env Meta rest Level1 Table1 of
                (Level2, Table2, log2, ev2) \<Rightarrow>
                  (Level2, Table2, log1 @ log2,
                   RespawnActorCall (Guid (snd SpawnedActor)) (map_option ActorName Actor) # ev2)))"

text \<open>The second loop, over the actors of the level. It stops at a fault.\<close>

fun RestoreActorsLoop :: "Env \<Rightarrow> FSpudLevelData \<Rightarrow> AActor list \<Rightarrow> (FGuid \<rightharpoonup> string) \<Rightarrow> AActor list \<times> (FGuid \<rightharpoonup> string) \<times> log_line list \<times> RestoreEvent list \<times> bool" where
  "RestoreActorsLoop env LevelData [] RuntimeObjectsByGuid = ([], RuntimeObjectsByGuid, [], [], False)"
| "RestoreActorsLoop env LevelData (Actor # rest) RuntimeObjectsByGuid =
     (if IsPersistentObject Actor
      then
        (case RestoreActor env Actor LevelData (Some RuntimeObjectsByGuid) of
           (Actor', log1, Fault) \<Rightarrow>
             if Fault
             then (Actor' # rest, RuntimeObjectsByGuid, log1,
                   [RestoreActorCall (ActorName Actor) RuntimeObjectsByGuid], True)
             else
               (let Guid = GetGuidProperty Actor';
                    Table1 = (if Guid_IsValid Guid
                              then RuntimeObjectsByGuid(Guid \<mapsto> ActorName Actor')
                              else RuntimeObjectsByGuid)
                in case RestoreActorsLoop env LevelData rest Table1 of
                     (rest', Table2, log2, ev2, Fault2) \<Rightarrow>
                       (Actor' # rest', Table2, log1 @ log2,
                        RestoreActorCall (ActorName Actor) RuntimeObjectsByGuid # ev2, Fault2)))
      else
        (case RestoreActorsLoop env LevelData rest RuntimeObjectsByGuid of
           (rest', Table2, log2, ev2, Fault2) \<Rightarrow> (Actor # rest', Table2, log2, ev2, Fault2)))"

text \<open>The third loop, over the names of the destroyed level actors.\<close>

fun DestroyLoop :: "string list \<Rightarrow> ULevel \<Rightarrow> ULevel \<times> RestoreEvent list" where
  "DestroyLoop [] Level = (Level, [])"
| "DestroyLoop (DestroyedActor # rest) Level =
     (case DestroyActor DestroyedActor Level of
        (Level1, ev1) \<Rightarrow>
          (case DestroyLoop rest Level1 of
             (Level2, ev2) \<Rightarrow> (Level2, ev1 @ ev2)))"

definition RestoreLevel :: "Env \<Rightarrow> FSpudSaveData \<Rightarrow> ULevel \<Rightarrow> ULevel \<times> FSpudSaveData \<times> log_line list \<times> RestoreEvent list \<times> bool" where
  "RestoreLevel env SaveData Level =
     (if \<not> LevelIsValid Level then (Level, SaveData, [], [], False)
      else
        (let LevelName = GetLevelName Level
         in case GetLevelData SaveData LevelName False of
              (None, SaveData1) \<Rightarrow>
                (Level, SaveData1,
                 [(Warning, ''Unable to restore level because data is missing'', [LevelName])], [], False)
            | (Some LevelData, SaveData1) \<Rightarrow>
                (case RespawnLoop env (Metadata LevelData) (SpawnedActors LevelData) Level Map.empty of
                   (Level1, Table1, log1, ev1) \<Rightarrow>
                     (case RestoreActorsLoop env LevelData (Actors Level1) Table1 of
                        (Actors2, Table2, log2, ev2, Fault) \<Rightarrow>
                          if Fault
                          then (Level1\<lparr>Actors := Actors2\<rparr>, SaveData1, log1 @ log2, ev1 @ ev2, True)
                          else
                            (case DestroyLoop (DestroyedActors LevelData) (Level1\<lparr>Actors := Actors2\<rparr>) of
                               (Level3, ev3) \<Rightarrow>
                                 (Level3, SaveData1, log1 @ log2, ev1 @ ev2 @ ev3, False))))))"

subsection \<open>Recording a destroyed level actor\<close>

definition UpdateLevelActorDestroyed :: "AActor \<Rightarrow> FSpudLevelData \<Rightarrow> FSpudLevelData" where
  "UpdateLevelActorDestroyed Actor LevelData =
     LevelData\<lparr>DestroyedActors := DestroyedActors LevelData @ [GetLevelActorName Actor]\<rparr>"

definition UpdateLevelActorDestroyed_Obj :: "AActor \<Rightarrow> FSpudSaveData \<Rightarrow> FSpudSaveData" where
  "UpdateLevelActorDestroyed_Obj Actor SaveData =
     (let LevelName = GetLevelNameForObject (OutermostName Actor)
      in case GetLevelData SaveData LevelName True of
           (None, SaveData1) \<Rightarrow> SaveData1
         | (Some LevelData, SaveData1) \<Rightarrow>
             SaveData1\<lparr>LevelDataMap :=
               (LevelDataMap SaveData1)(LevelName \<mapsto> UpdateLevelActorDestroyed Actor LevelData)\<rparr>)"

section \<open>Notions used to state the properties\<close>

text \<open>The core data \<^verbatim>\<open>WriteCoreActorData\<close> produces for given field values.\<close>

definition CoreBytes :: "bool \<Rightarrow> FTransform \<Rightarrow> FVector \<Rightarrow> FVector \<Rightarrow> bytes" where
  "CoreBytes h t v w =
     WriteRaw_FVector w (WriteRaw_FVector v (WriteRaw_FTransform t (WriteRaw_bool h (WriteRaw_uint16 1 []))))"

text \<open>The version tag \<^verbatim>\<open>RestoreCoreActorData\<close> reads from stored core data.\<close>

definition CoreDataVersionTag :: "bytes \<Rightarrow> 16 word" where
  "CoreDataVersionTag d = fst (ReadRaw_uint16 0 (MemoryReader d))"

text \<open>The record \<^verbatim>\<open>RestoreActor\<close> restores an actor from: by GUID among the spawned
  actors when the actor is routed to respawn, by name among the level actors
  otherwise.\<close>

definition StoredActorData :: "AActor \<Rightarrow> FSpudLevelData \<Rightarrow> FSpudObjectData option" where
  "StoredActorData Actor LevelData =
     (if ShouldActorBeRespawnedOnRestore Actor
      then (if Guid_IsValid (GetGuidProperty Actor)
            then map_option FSpudObjectData.truncate
                   (map_of (SpawnedActors LevelData) (GetGuidProperty Actor))
            else None)
      else map_option FSpudObjectData.truncate (LevelActors LevelData (GetLevelActorName Actor)))"

text \<open>The number of leaf properties a walk over a property list visits.\<close>

fun NumLeaves :: "FProperty list \<Rightarrow> nat" and NumLeavesOne :: "FProperty \<Rightarrow> nat" where
  "NumLeaves [] = 0"
| "NumLeaves (p # ps) = NumLeavesOne p + NumLeaves ps"
| "NumLeavesOne (PrimitiveProperty n k) = 1"
| "NumLeavesOne (CustomStructProperty n fs) = NumLeaves fs"
| "NumLeavesOne (UnsupportedKindProperty n) = 0"








section \<open>Concrete inputs\<close>

definition DoorActor :: AActor where
  "DoorActor =
     \<lparr>ActorName = ''Door_0'', ClassPathName = ''/Game/BP_Door.BP_Door_C'',
      ClassAncestry = [Class_Other ''BP_Door_C'', Class_AActor],
      ClassProperties = [PrimitiveProperty ''Health'' ESST_UInt8],
      ObjectFlags = [], OutermostName = Some ''/Game/Maps/Test'',
      IsRuntimeActor = False, IsPersistentObject = True, SpudObject = None,
      ImplementsSpudObjectCallback = False, SpudGuid = None, bHidden = False,
      RootComponent = None, PropertyValues = (\<lambda>p. [])\<rparr>"

definition EnemyActor :: AActor where
  "EnemyActor =
     \<lparr>ActorName = ''BP_Enemy_C_0'', ClassPathName = ''/Game/BP_Enemy.BP_Enemy_C'',
      ClassAncestry = [Class_Other ''BP_Enemy_C'', Class_AActor],
      ClassProperties = [],
      ObjectFlags = [], OutermostName = Some ''/Game/Maps/Test'',
      IsRuntimeActor = True, IsPersistentObject = True, SpudObject = Some AlwaysRespawn,
      ImplementsSpudObjectCallback = False, SpudGuid = Some 0, bHidden = False,
      RootComponent = None, PropertyValues = (\<lambda>p. [])\<rparr>"

definition TestEnv :: Env where
  "TestEnv =
     \<lparr>TryLoadClass = (\<lambda>n. if n = ''/Game/BP_Enemy.BP_Enemy_C'' then Some EnemyActor else None),
      SpawnActor = (\<lambda>c l. Some c),
      NewGuid = 42,
      SpudPreSaveState = (\<lambda>a. a),
      SpudFinaliseSaveState = (\<lambda>a. (a, [])),
      SpudPostSaveState = (\<lambda>a. a),
      SpudPreLoadState = (\<lambda>a. a),
      SpudFinaliseLoadState = (\<lambda>a b. a),
      SpudPostLoadState = (\<lambda>a. a),
      UninitBool = False,
      UninitVector = ZeroVector\<rparr>"

definition TestLevel :: ULevel where
  "TestLevel = \<lparr>LevelIsValid = True, LevelOutermostName = Some ''/Game/Maps/Test'', Actors = [DoorActor]\<rparr>"

definition EmptySaveData :: FSpudSaveData where
  "EmptySaveData = \<lparr>LevelDataMap = Map.empty\<rparr>"

definition DoorCDO :: AActor where
  "DoorCDO = DoorActor\<lparr>ObjectFlags := [RF_ClassDefaultObject]\<rparr>"




definition DoorRecordBadCore :: FSpudNamedObjectData where
  "DoorRecordBadCore =
     \<lparr>CoreData = [2, 0, 1], ObjProperties = \<lparr>PropertyOffsets = [0], PropData = [9]\<rparr>,
      CustomData = [], ObjName = ''Door_0''\<rparr>"

definition DoorClassDef :: FSpudClassDef where
  "DoorClassDef =
     \<lparr>ClassName = ''/Game/BP_Door.BP_Door_C'',
      Properties = [\<lparr>PropertyID = 0, PropPrefixID = SPUDDATA_PREFIXID_NONE, DataType = ESST_UInt8\<rparr>],
      PropertyLookup = [SPUDDATA_PREFIXID_NONE \<mapsto> [0 \<mapsto> 0]]\<rparr>"

definition DoorLevelData :: FSpudLevelData where
  "DoorLevelData =
     \<lparr>LevelDataName = ''Test'',
      Metadata = \<lparr>ClassDefinitions = [DoorClassDef], PropertyNames = [''Health''], NestedPrefixes = []\<rparr>,
      LevelActors = [''Door_0'' \<mapsto> DoorRecordBadCore],
      SpawnedActors = [],
      DestroyedActors = []\<rparr>"

text \<open>A class saved with the properties A, B and loaded with the order B, A.\<close>

definition ReorderedActor :: AActor where
  "ReorderedActor =
     \<lparr>ActorName = ''Chest_0'', ClassPathName = ''/Game/BP_Chest.BP_Chest_C'',
      ClassAncestry = [Class_Other ''BP_Chest_C'', Class_AActor],
      ClassProperties = [PrimitiveProperty ''B'' ESST_UInt8, PrimitiveProperty ''A'' ESST_UInt8],
      ObjectFlags = [], OutermostName = Some ''/Game/Maps/Test'',
      IsRuntimeActor = False, IsPersistentObject = True, SpudObject = None,
      ImplementsSpudObjectCallback = False, SpudGuid = None, bHidden = False,
      RootComponent = None, PropertyValues = (\<lambda>p. [0])\<rparr>"

definition ChestClassDef :: FSpudClassDef where
  "ChestClassDef =
     \<lparr>ClassName = ''/Game/BP_Chest.BP_Chest_C'',
      Properties = [\<lparr>PropertyID = 0, PropPrefixID = SPUDDATA_PREFIXID_NONE, DataType = ESST_UInt8\<rparr>,
                    \<lparr>PropertyID = 1, PropPrefixID = SPUDDATA_PREFIXID_NONE, DataType = ESST_UInt8\<rparr>],
      PropertyLookup = [SPUDDATA_PREFIXID_NONE \<mapsto> [0 \<mapsto> 0, 1 \<mapsto> 1]]\<rparr>"

definition ChestMetadata :: FSpudClassMetadata where
  "ChestMetadata = \<lparr>ClassDefinitions = [ChestClassDef], PropertyNames = [''A'', ''B''], NestedPrefixes = []\<rparr>"

text \<open>Stored values: A = 1 at offset 0, B = 2 at offset 1.\<close>

definition ChestPropertyData :: FSpudPropertyData where
  "ChestPropertyData = \<lparr>PropertyOffsets = [0, 1], PropData = [1, 2]\<rparr>"

section \<open>Auxiliary lemmas\<close>

subsection \<open>Raw values\<close>

lemma length_f32_bytes [simp]: "length (f32_bytes f) = 4"
  by (cases f) (simp add: f32_bytes_def)

lemma length_vector_bytes [simp]: "length (vector_bytes v) = 12"
  by (cases v) (simp add: vector_bytes_def)

lemma length_quat_bytes [simp]: "length (quat_bytes q) = 16"
  by (cases q) (simp add: quat_bytes_def)

lemma bytes_f32_bytes [simp]: "bytes_f32 (f32_bytes f @ rest) = f"
  by (cases f) (simp add: f32_bytes_def bytes_f32_def)

lemma bytes_f32_bytes' [simp]: "bytes_f32 (f32_bytes f) = f"
  using bytes_f32_bytes [of f "[]"] by simp

lemma bytes_vector_bytes [simp]: "bytes_vector (vector_bytes v @ rest) = v"
  by (cases v) (simp add: vector_bytes_def bytes_vector_def)

lemma bytes_vector_bytes' [simp]: "bytes_vector (vector_bytes v) = v"
  using bytes_vector_bytes [of v "[]"] by simp

lemma bytes_quat_bytes [simp]: "bytes_quat (quat_bytes q @ rest) = q"
  by (cases q) (simp add: quat_bytes_def bytes_quat_def)

lemma bytes_quat_bytes' [simp]: "bytes_quat (quat_bytes q) = q"
  using bytes_quat_bytes [of q "[]"] by simp

subsection \<open>Core data\<close>

lemma RestoreCore_v1:
  "RestoreCoreActorData env Actor (CoreBytes h t v w) =
     (case RootComponent Actor of
        None \<Rightarrow> (Actor\<lparr>bHidden := h\<rparr>, [])
      | Some rc \<Rightarrow>
          (Actor\<lparr>bHidden := h,
                 RootComponent := Some
                   (if Mobility rc = Movable \<and> SimulatingPhysics rc \<and> IsPrimitiveComponent rc
                    then rc\<lparr>ComponentTransform := t, PhysicsLinearVelocity := v, PhysicsAngularVelocity := w\<rparr>
                    else rc\<lparr>ComponentTransform := t\<rparr>)\<rparr>, []))"
proof -
  let ?d = "CoreBytes h t v w"
  have d: "?d = [1, 0] @ [if h then 1 else 0] @ (quat_bytes (Rotation t) @ vector_bytes (Translation t) @ vector_bytes (Scale3D t))
                 @ vector_bytes v @ vector_bytes w"
    by (simp add: CoreBytes_def WriteRaw_FVector_def WriteRaw_FTransform_def WriteRaw_bool_def WriteRaw_uint16_def)
  have r1: "ReadRaw_uint16 0 (MemoryReader ?d) = (1, (MemoryReader ?d)\<lparr>ReaderPos := 2\<rparr>)"
    unfolding d by (simp add: ReadRaw_uint16_def Serialize_def MemoryReader_def)
  have r2: "ReadRaw_bool b ((MemoryReader ?d)\<lparr>ReaderPos := 2\<rparr>) = (h, (MemoryReader ?d)\<lparr>ReaderPos := 3\<rparr>)" for b
    unfolding d by (simp add: ReadRaw_bool_def Serialize_def MemoryReader_def)
  have r3: "ReadRaw_FTransform x ((MemoryReader ?d)\<lparr>ReaderPos := 3\<rparr>) = (t, (MemoryReader ?d)\<lparr>ReaderPos := 43\<rparr>)" for x
    unfolding d by (simp add: ReadRaw_FTransform_def Serialize_def MemoryReader_def)
  have r4: "ReadRaw_FVector x ((MemoryReader ?d)\<lparr>ReaderPos := 43\<rparr>) = (v, (MemoryReader ?d)\<lparr>ReaderPos := 55\<rparr>)" for x
    unfolding d by (simp add: ReadRaw_FVector_def Serialize_def MemoryReader_def)
  have r5: "ReadRaw_FVector x ((MemoryReader ?d)\<lparr>ReaderPos := 55\<rparr>) = (w, (MemoryReader ?d)\<lparr>ReaderPos := 67\<rparr>)" for x
    unfolding d by (simp add: ReadRaw_FVector_def Serialize_def MemoryReader_def)
  show ?thesis
    unfolding RestoreCoreActorData_def
    by (auto simp add: r1 r2 r3 r4 r5 SetActorHiddenInGame_def SetActorTransform_def Let_def split: option.splits)
qed

lemma WriteCore_eq:
  "WriteCoreActorData Actor [] =
     CoreBytes (bHidden Actor) (GetTransform Actor)
       (case RootComponent Actor of None \<Rightarrow> ZeroVector
        | Some rc \<Rightarrow> if Mobility rc = Movable \<and> SimulatingPhysics rc \<and> IsPrimitiveComponent rc then PhysicsLinearVelocity rc else ZeroVector)
       (case RootComponent Actor of None \<Rightarrow> ZeroVector
        | Some rc \<Rightarrow> if Mobility rc = Movable \<and> SimulatingPhysics rc \<and> IsPrimitiveComponent rc then PhysicsAngularVelocity rc else ZeroVector)"
  by (simp add: WriteCoreActorData_def CoreBytes_def IsHidden_def split: option.splits)

lemma RestoreCore_bad:
  "CoreDataVersionTag d \<noteq> 1 \<Longrightarrow>
   RestoreCoreActorData env Actor d = (Actor, [(Error, ''Core Actor Data is corrupt, not restoring'', [ActorName Actor])])"
  by (cases "ReadRaw_uint16 0 (MemoryReader d)") (simp add: RestoreCoreActorData_def CoreDataVersionTag_def)

subsection \<open>Looking up the record of an actor\<close>

lemma GetSpawnedActorData_lookup:
  "GetSpawnedActorData env Actor LevelData False =
     (Actor, LevelData,
      (if Guid_IsValid (GetGuidProperty Actor)
       then map_option (\<lambda>r. (GetGuidProperty Actor, r)) (map_of (SpawnedActors LevelData) (GetGuidProperty Actor))
       else None),
      (if Guid_IsValid (GetGuidProperty Actor) then [] else MissingGuidLog Actor))"
  by (simp add: GetSpawnedActorData_def Let_def split: option.splits)

lemma GetLevelActorData_lookup:
  "GetLevelActorData Actor LevelData False = (LevelActors LevelData (GetLevelActorName Actor), LevelData)"
  by (simp add: GetLevelActorData_def Let_def split: option.splits)

lemma RestoreActor_found:
  assumes "\<not> HasAnyFlags Actor [RF_ClassDefaultObject, RF_ArchetypeObject, RF_BeginDestroyed]"
      and "StoredActorData Actor LevelData = Some Data"
  shows "RestoreActor env Actor LevelData RuntimeObjects =
     (case RestoreCoreActorData env (PreRestoreObject env Actor) (CoreData Data) of
        (Actor2, log2) \<Rightarrow>
          (case RestoreObjectProperties Actor2 (ObjProperties Data) (Metadata LevelData) RuntimeObjects of
             (Actor3, log3, Fault) \<Rightarrow>
               (if Fault then Actor3 else PostRestoreObject env Actor3 (CustomData Data),
                [(Verbose, ''Restoring Actor'', [ActorName Actor])] @ log2 @ log3, Fault)))"
proof (cases "ShouldActorBeRespawnedOnRestore Actor")
  case True
  with assms(2) have v: "Guid_IsValid (GetGuidProperty Actor)"
    and m: "map_option FSpudObjectData.truncate (map_of (SpawnedActors LevelData) (GetGuidProperty Actor)) = Some Data"
    by (auto simp: StoredActorData_def split: if_splits)
  from m obtain r where r: "map_of (SpawnedActors LevelData) (GetGuidProperty Actor) = Some r"
    "FSpudObjectData.truncate r = Data" by auto
  show ?thesis using assms(1) True v r
    by (simp add: RestoreActor_def GetSpawnedActorData_lookup Let_def split: prod.splits)
next
  case False
  with assms(2) obtain r where r: "LevelActors LevelData (GetLevelActorName Actor) = Some r"
    "FSpudObjectData.truncate r = Data"
    by (auto simp: StoredActorData_def)
  show ?thesis using assms(1) False r
    by (simp add: RestoreActor_def GetLevelActorData_lookup Let_def split: prod.splits)
qed

subsection \<open>Walking properties\<close>

lemma RestoreProperty_iter [simp]: "rsIter (RestoreProperty p c sp R s) = rsIter s"
  by (simp add: RestoreProperty_def split: FProperty.splits prod.splits option.splits)

lemma RestoreProperty_fault [simp]: "rsFault (RestoreProperty p c sp R s) = rsFault s"
  by (simp add: RestoreProperty_def split: FProperty.splits prod.splits option.splits)

lemma fast_visit_step:
  "rsIter s < length (Properties ClassDef) \<Longrightarrow>
   RestoreFastPropertyVisitor_VisitProperty ClassDef R p px c d s = (cont, s') \<Longrightarrow>
   cont \<and> rsFault s' = rsFault s \<and> rsIter s' = (if IsCustomStructProperty p then rsIter s else rsIter s + 1)"
  by (auto simp: RestoreFastPropertyVisitor_VisitProperty_def Let_def split: if_splits)

lemma fast_visit_fault:
  "\<not> rsIter s < length (Properties ClassDef) \<Longrightarrow>
   RestoreFastPropertyVisitor_VisitProperty ClassDef R p px c d s = (False, s\<lparr>rsFault := True\<rparr>)"
  by (auto simp: RestoreFastPropertyVisitor_VisitProperty_def)

lemma fast_GetNestedPrefix [simp]:
  "GetNestedPrefix (RestoreFastPropertyVisitor ClassDef Meta R) p px s = (GetNestedPrefixID px p Meta, s)"
  by (simp add: RestoreFastPropertyVisitor_def RestorePropertyVisitor_GetNestedPrefix_def)

lemma fast_Unsupported [simp]:
  "UnsupportedProperty (RestoreFastPropertyVisitor ClassDef Meta R) p px d s = s"
  by (simp add: RestoreFastPropertyVisitor_def RestorePropertyVisitor_UnsupportedProperty_def)

lemma fast_Visit [simp]:
  "VisitProperty (RestoreFastPropertyVisitor ClassDef Meta R) = RestoreFastPropertyVisitor_VisitProperty ClassDef R"
  by (simp add: RestoreFastPropertyVisitor_def)

lemma fast_visit_sticky:
  "RestoreFastPropertyVisitor_VisitProperty ClassDef R p px c d s = (cont, s') \<Longrightarrow> rsFault s \<Longrightarrow> rsFault s'"
  by (auto simp: RestoreFastPropertyVisitor_VisitProperty_def Let_def split: if_splits)

lemma Visit_invariant:
  assumes step: "\<And>p px c d s b s'. VisitProperty V p px c d s = (b, s') \<Longrightarrow> I s \<Longrightarrow> I s'"
      and uns: "\<And>p px d s. I s \<Longrightarrow> I (UnsupportedProperty V p px d s)"
      and nest: "\<And>p px s npx s'. GetNestedPrefix V p px s = (npx, s') \<Longrightarrow> I s \<Longrightarrow> I s'"
  shows "VisitProperties V ps px c d s = (b, s') \<Longrightarrow> I s \<Longrightarrow> I s'"
    and "VisitOneProperty V p px c d s = (b, s') \<Longrightarrow> I s \<Longrightarrow> I s'"
  using assms
proof (induction V ps px c d s and V p px c d s arbitrary: b s' and b s'
       rule: VisitProperties_VisitOneProperty.induct)
  case (1 V px c d s)
  then show ?case by simp
next
  case (2 V p ps px c d s)
  note st = "2.prems"(3) and un = "2.prems"(4) and ne = "2.prems"(5)
  obtain c1 s1 where one: "VisitOneProperty V p px c d s = (c1, s1)"
    by (cases "VisitOneProperty V p px c d s")
  have I1: "I s1" using "2.IH"(1)[OF one "2.prems"(2) st un ne] .
  show ?case
  proof (cases c1)
    case True
    with one "2.prems"(1) have rest: "VisitProperties V ps px c d s1 = (b, s')" by simp
    from True have t: "c1 = True" by simp
    show ?thesis using "2.IH"(2)[OF one[symmetric] t rest I1 st un ne] .
  next
    case False
    with one "2.prems"(1) have "s' = s1" by simp
    with I1 show ?thesis by simp
  qed
next
  case (3 V n k px c d s)
  then show ?case by simp
next
  case (4 V n px c d s)
  then show ?case by auto
next
  case (5 V n fs px c d s)
  note st = "5.prems"(3) and un = "5.prems"(4) and ne = "5.prems"(5)
  obtain c1 s1 where v: "VisitProperty V (CustomStructProperty n fs) px c d s = (c1, s1)"
    by (cases "VisitProperty V (CustomStructProperty n fs) px c d s")
  have I1: "I s1" using st[OF v "5.prems"(2)] .
  show ?case
  proof (cases c1)
    case True
    from True have t: "c1 = True" by simp
    obtain npx s2 where g: "GetNestedPrefix V (CustomStructProperty n fs) px s1 = (npx, s2)"
      by (cases "GetNestedPrefix V (CustomStructProperty n fs) px s1")
    have I2: "I s2" using ne[OF g I1] .
    from v True g "5.prems"(1) have rest: "VisitProperties V fs npx (c @ [n]) (d + 1) s2 = (b, s')" by simp
    show ?thesis using "5.IH"[OF v[symmetric] t g[symmetric] rest I2 st un ne] .
  next
    case False
    with v "5.prems"(1) have "s' = s1" by simp
    with I1 show ?thesis by simp
  qed
qed

lemma fast_walk_sticky:
  "VisitProperties (RestoreFastPropertyVisitor ClassDef Meta R) ps px c d s = (cont, s') \<Longrightarrow>
     rsFault s \<Longrightarrow> rsFault s'"
  by (rule Visit_invariant(1)[where I = rsFault and V = "RestoreFastPropertyVisitor ClassDef Meta R"])
     (auto dest: fast_visit_sticky)

lemma fast_walk_iter:
  "VisitProperties (RestoreFastPropertyVisitor ClassDef Meta R) ps px c d s = (cont, s') \<Longrightarrow>
     \<not> rsFault s' \<Longrightarrow> cont \<and> rsIter s' = rsIter s + NumLeaves ps"
  "VisitOneProperty (RestoreFastPropertyVisitor ClassDef Meta R) p px c d s = (cont, s') \<Longrightarrow>
     \<not> rsFault s' \<Longrightarrow> cont \<and> rsIter s' = rsIter s + NumLeavesOne p"
proof (induction "RestoreFastPropertyVisitor ClassDef Meta R" ps px c d s and "RestoreFastPropertyVisitor ClassDef Meta R" p px c d s
       arbitrary: cont s' and cont s' rule: VisitProperties_VisitOneProperty.induct)
  case (1 px c d s)
  then show ?case by simp
next
  case (2 p ps px c d s)
  obtain c1 s1 where one: "VisitOneProperty (RestoreFastPropertyVisitor ClassDef Meta R) p px c d s = (c1, s1)"
    by (cases "VisitOneProperty (RestoreFastPropertyVisitor ClassDef Meta R) p px c d s")
  show ?case
  proof (cases c1)
    case True
    with one 2(3) have rest: "VisitProperties (RestoreFastPropertyVisitor ClassDef Meta R) ps px c d s1 = (cont, s')"
      by simp
    have nf: "\<not> rsFault s1" using fast_walk_sticky(1)[OF rest] 2(4) by blast
    from 2(2)[OF one[symmetric] _ rest 2(4)] True have r: "cont \<and> rsIter s' = rsIter s1 + NumLeaves ps" by simp
    from 2(1)[OF one nf] have "rsIter s1 = rsIter s + NumLeavesOne p" by simp
    with r show ?thesis by simp
  next
    case False
    with one 2(3) have "s' = s1" "cont = False" by simp_all
    with 2(1)[OF one] 2(4) False show ?thesis by simp
  qed
next
  case (3 n k px c d s)
  then show ?case
    by (auto simp: RestoreFastPropertyVisitor_VisitProperty_def Let_def split: if_splits)
next
  case (4 n px c d s)
  then show ?case by simp
next
  case (5 n fs px c d s)
  obtain c1 s1 where v: "RestoreFastPropertyVisitor_VisitProperty ClassDef R (CustomStructProperty n fs) px c d s = (c1, s1)"
    by (cases "RestoreFastPropertyVisitor_VisitProperty ClassDef R (CustomStructProperty n fs) px c d s")
  show ?case
  proof (cases c1)
    case True
    with v 5(2) have rest: "VisitProperties (RestoreFastPropertyVisitor ClassDef Meta R) fs (GetNestedPrefixID px (CustomStructProperty n fs) Meta) (c @ [n]) (d + 1) s1 = (cont, s')"
      by simp
    have it: "rsIter s1 = rsIter s" using v True
      by (auto simp: RestoreFastPropertyVisitor_VisitProperty_def Let_def split: if_splits)
    from 5(1)[OF _ _ _ rest 5(3)] v True have "cont \<and> rsIter s' = rsIter s1 + NumLeaves fs" by simp
    with it show ?thesis by simp
  next
    case False
    with v 5(2) have "s' = s1" by simp
    with v False 5(3) show ?thesis
      by (auto simp: RestoreFastPropertyVisitor_VisitProperty_def Let_def split: if_splits)
  qed
qed

subsection \<open>The loops of RestoreLevel\<close>

lemma DestroyLoop_append:
  "DestroyLoop (xs @ ys) L =
     (case DestroyLoop xs L of (L1, e1) \<Rightarrow> (case DestroyLoop ys L1 of (L2, e2) \<Rightarrow> (L2, e1 @ e2)))"
  by (induction xs arbitrary: L) (auto split: prod.splits)

lemma find_remove1_distinct:
  assumes "distinct (map f xs)" and "find (\<lambda>a. f a = n) xs = Some a"
  shows "find (\<lambda>a. f a = n) (remove1 a xs) = None"
proof -
  from assms(1) have d: "distinct xs" and inj: "inj_on f (set xs)"
    by (simp_all add: distinct_map)
  from assms(2) have a: "a \<in> set xs" "f a = n"
    by (auto simp: find_Some_iff)
  have "\<And>y. y \<in> set (remove1 a xs) \<Longrightarrow> f y \<noteq> n"
  proof
    fix y assume y: "y \<in> set (remove1 a xs)" and fy: "f y = n"
    from y d have "y \<in> set xs" "y \<noteq> a" by simp_all
    with a fy inj show False by (auto dest: inj_onD)
  qed
  then show ?thesis by (auto simp: find_None_iff)
qed

lemma DestroyActor_again:
  assumes "distinct (map ActorName (Actors L))"
  shows "DestroyActor n (fst (DestroyActor n L)) = (fst (DestroyActor n L), [])"
proof (cases "StaticFindObject L n")
  case None
  then show ?thesis by (simp add: DestroyActor_def)
next
  case (Some a)
  then have "find (\<lambda>a. ActorName a = n) (remove1 a (Actors L)) = None"
    using assms find_remove1_distinct[of ActorName "Actors L" n a] by (simp add: StaticFindObject_def)
  with Some show ?thesis
    by (simp add: DestroyActor_def StaticFindObject_def World_DestroyActor_def)
qed

lemma distinct_map_remove1:
  "distinct (map f xs) \<Longrightarrow> distinct (map f (remove1 a xs))"
proof (induction xs)
  case Nil
  then show ?case by simp
next
  case (Cons x xs)
  have "f ` set (remove1 a xs) \<subseteq> f ` set xs"
    using set_remove1_subset[of a xs] by blast
  with Cons show ?case by auto
qed

lemma DestroyActor_distinct:
  "distinct (map ActorName (Actors L)) \<Longrightarrow> distinct (map ActorName (Actors (fst (DestroyActor n L))))"
  by (simp add: DestroyActor_def World_DestroyActor_def distinct_map_remove1 split: option.splits)

lemma DestroyLoop_distinct:
  "distinct (map ActorName (Actors L)) \<Longrightarrow> distinct (map ActorName (Actors (fst (DestroyLoop ns L))))"
proof (induction ns arbitrary: L)
  case Nil
  then show ?case by simp
next
  case (Cons n ns)
  from Cons.IH[OF DestroyActor_distinct[OF Cons.prems, of n]] show ?case
    by (cases "DestroyActor n L") (simp add: split_beta)
qed

lemma DestroyLoop_twice:
  assumes "distinct (map ActorName (Actors L))"
  shows "fst (DestroyLoop (ns @ [n, n]) L) = fst (DestroyLoop (ns @ [n]) L)"
    and "snd (DestroyLoop (ns @ [n, n]) L) = snd (DestroyLoop (ns @ [n]) L)"
proof -
  obtain L1 e1 where l1: "DestroyLoop ns L = (L1, e1)" by (cases "DestroyLoop ns L")
  have d1: "distinct (map ActorName (Actors L1))"
    using DestroyLoop_distinct[OF assms, of ns] l1 by simp
  obtain L2 e2 where l2: "DestroyActor n L1 = (L2, e2)" by (cases "DestroyActor n L1")
  have "DestroyActor n L2 = (L2, [])" using DestroyActor_again[OF d1, of n] l2 by simp
  then show "fst (DestroyLoop (ns @ [n, n]) L) = fst (DestroyLoop (ns @ [n]) L)"
    and "snd (DestroyLoop (ns @ [n, n]) L) = snd (DestroyLoop (ns @ [n]) L)"
    using l1 l2 by (simp_all add: DestroyLoop_append)
qed

lemma count_remove1:
  "a \<in> set xs \<Longrightarrow> P a \<Longrightarrow> Suc (length (filter P (remove1 a xs))) = length (filter P xs)"
  by (induction xs) auto

lemma count_remove1_other:
  "\<not> P a \<Longrightarrow> length (filter P (remove1 a xs)) = length (filter P xs)"
  by (induction xs) auto

lemma DestroyLoop_count:
  "length (filter (\<lambda>e. e = WorldDestroyActorCall n) (snd (DestroyLoop ns L)))
     \<le> length (filter (\<lambda>a. ActorName a = n) (Actors L))"
proof (induction ns arbitrary: L)
  case Nil
  then show ?case by simp
next
  case (Cons d ns)
  show ?case
  proof (cases "StaticFindObject L d")
    case None
    then show ?thesis using Cons.IH[of L] by (simp add: DestroyActor_def split_beta)
  next
    case (Some a)
    then have a: "a \<in> set (Actors L)" "ActorName a = d"
      by (auto simp: StaticFindObject_def find_Some_iff)
    let ?L1 = "World_DestroyActor L a"
    have ih: "length (filter (\<lambda>e. e = WorldDestroyActorCall n) (snd (DestroyLoop ns ?L1)))
         \<le> length (filter (\<lambda>a. ActorName a = n) (Actors ?L1))" by (rule Cons.IH)
    show ?thesis
    proof (cases "d = n")
      case True
      with a count_remove1[of a "Actors L" "\<lambda>a. ActorName a = n"]
      have "Suc (length (filter (\<lambda>a. ActorName a = n) (Actors ?L1))) = length (filter (\<lambda>a. ActorName a = n) (Actors L))"
        by (simp add: World_DestroyActor_def)
      with ih Some a True show ?thesis
        by (simp add: DestroyActor_def split_beta)
    next
      case False
      with a count_remove1_other[of "\<lambda>a. ActorName a = n" a "Actors L"]
      have "length (filter (\<lambda>a. ActorName a = n) (Actors ?L1)) = length (filter (\<lambda>a. ActorName a = n) (Actors L))"
        by (simp add: World_DestroyActor_def)
      with ih Some a False show ?thesis
        by (simp add: DestroyActor_def split_beta)
    qed
  qed
qed

lemma distinct_count_le1:
  "distinct (map f xs) \<Longrightarrow> length (filter (\<lambda>a. f a = n) xs) \<le> 1"
proof (induction xs)
  case Nil
  then show ?case by simp
next
  case (Cons x xs)
  show ?case
  proof (cases "f x = n")
    case True
    from Cons.prems have "f x \<notin> f ` set xs" by simp
    with True have "\<forall>a \<in> set xs. f a \<noteq> n" by (metis imageI)
    then have "filter (\<lambda>a. f a = n) xs = []" by (simp add: filter_empty_conv)
    with True show ?thesis by simp
  next
    case False
    with Cons show ?thesis by simp
  qed
qed





subsection \<open>Records of spawned actors\<close>

lemma GetSpawnedActorData_blank:
  assumes "SpudGuid Actor = Some g" and "\<not> Guid_IsValid g"
  shows "\<exists>LevelData' r. GetSpawnedActorData env Actor LevelData True =
         (Actor\<lparr>SpudGuid := Some (NewGuid env)\<rparr>, LevelData', Some (NewGuid env, r), [])"
  using assms
  by (auto simp: GetSpawnedActorData_def GetGuidProperty_def SetGuidProperty_def Let_def
      split: option.splits prod.splits)

lemma GetSpawnedActorData_None_iff:
  "(\<exists>Actor' LevelData' log. GetSpawnedActorData env Actor LevelData True =
          (Actor', LevelData', None, log)) \<longleftrightarrow> SpudGuid Actor = None"
  by (auto simp: GetSpawnedActorData_def GetGuidProperty_def SetGuidProperty_def Let_def Guid_IsValid_def
      split: option.splits prod.splits if_splits)

lemma GetSpawnedActorData_no_property:
  "SpudGuid Actor = None \<Longrightarrow>
   GetSpawnedActorData env Actor LevelData True = (Actor, LevelData, None, MissingGuidLog Actor)"
  by (simp add: GetSpawnedActorData_def GetGuidProperty_def SetGuidProperty_def Let_def Guid_IsValid_def)

lemma UpdateFromActor_blank:
  assumes a: "SpudGuid Actor = Some g" "\<not> Guid_IsValid g" "ShouldActorBeRespawnedOnRestore Actor"
       "\<not> HasAnyFlags Actor [RF_ClassDefaultObject, RF_ArchetypeObject, RF_BeginDestroyed]"
       "\<not> ImplementsSpudObjectCallback Actor"
  shows "fst (UpdateFromActor env Actor LevelData) = Actor\<lparr>SpudGuid := Some (NewGuid env)\<rparr>"
    and "NewGuid env \<in> fst ` set (SpawnedActors (fst (snd (UpdateFromActor env Actor LevelData))))"
proof -
  obtain ci M0 where f: "FindOrAddClassIDFromName (Metadata LevelData) (GetClassName Actor) = (ci, M0)"
    by (cases "FindOrAddClassIDFromName (Metadata LevelData) (GetClassName Actor)")
  let ?A1 = "Actor\<lparr>SpudGuid := Some (NewGuid env)\<rparr>"
  from GetSpawnedActorData_blank[OF a(1,2)]
  obtain LD1 r where g: "GetSpawnedActorData env Actor (LevelData\<lparr>Metadata := M0\<rparr>) True =
         (?A1, LD1, Some (NewGuid env, r), [])" by blast
  obtain A2 M2 r2 log2 where w: "UpdateFromActor_Write env ?A1 ci (Metadata LD1) r = (A2, M2, r2, log2)"
    by (cases "UpdateFromActor_Write env ?A1 ci (Metadata LD1) r")
  from a w have A2: "A2 = ?A1"
    by (auto simp: UpdateFromActor_Write_def Let_def split: prod.splits)
  from a f g w have u: "UpdateFromActor env Actor LevelData =
      (A2, LD1\<lparr>Metadata := M2, SpawnedActors := AList.update (NewGuid env) r2 (SpawnedActors LD1)\<rparr>,
       [(Verbose, ''* Runtime object'', [GetLevelActorName ?A1])] @ log2)"
    by (simp add: UpdateFromActor_def Let_def)
  show "fst (UpdateFromActor env Actor LevelData) = Actor\<lparr>SpudGuid := Some (NewGuid env)\<rparr>"
    using u A2 by simp
  show "NewGuid env \<in> fst ` set (SpawnedActors (fst (snd (UpdateFromActor env Actor LevelData))))"
    using u by (simp add: dom_update)
qed

lemma GetLevelName_TestLevel: "GetLevelName TestLevel = ''Test''"
  by (simp add: GetLevelName_def GetLevelNameForObject_def TestLevel_def StartsWithIgnoreCase_def)

subsection \<open>Facts used by the properties\<close>

lemma RestoreCore_v1_only_when:
  assumes "CoreDataVersionTag d = 1"
  shows "snd (RestoreCoreActorData env Actor d) = []"
    and "RootComponent Actor = Some rc \<Longrightarrow> \<not> (Mobility rc = Movable \<and> SimulatingPhysics rc) \<Longrightarrow>
         \<exists>rc'. RootComponent (fst (RestoreCoreActorData env Actor d)) = Some rc'
            \<and> PhysicsLinearVelocity rc' = PhysicsLinearVelocity rc
            \<and> PhysicsAngularVelocity rc' = PhysicsAngularVelocity rc"
proof -
  obtain In1 where r: "ReadRaw_uint16 0 (MemoryReader d) = (1, In1)"
    using assms by (cases "ReadRaw_uint16 0 (MemoryReader d)") (simp add: CoreDataVersionTag_def)
  show "snd (RestoreCoreActorData env Actor d) = []"
    by (simp add: RestoreCoreActorData_def r Let_def split_beta split: option.splits)
  show "\<exists>rc'. RootComponent (fst (RestoreCoreActorData env Actor d)) = Some rc'
            \<and> PhysicsLinearVelocity rc' = PhysicsLinearVelocity rc
            \<and> PhysicsAngularVelocity rc' = PhysicsAngularVelocity rc"
    if "RootComponent Actor = Some rc" "\<not> (Mobility rc = Movable \<and> SimulatingPhysics rc)"
    using that
    by (auto simp add: RestoreCoreActorData_def r Let_def split_beta SetActorTransform_def
        SetActorHiddenInGame_def split: option.splits)
qed

lemma DoorRestore_props:
  "RestoreObjectProperties DoorActor \<lparr>PropertyOffsets = [0], PropData = [9]\<rparr> (Metadata DoorLevelData) None =
     (DoorActor\<lparr>PropertyValues := (PropertyValues DoorActor)([''Health''] := [9])\<rparr>,
      [(Verbose, ''Restoring properties via FAST path'', [''/Game/BP_Door.BP_Door_C''])], False)"
  by (simp add: RestoreObjectProperties_def GetClassDef_def GetClassIDFromName_def DoorLevelData_def
      DoorClassDef_def GetClassName_def DoorActor_def MatchesRuntimeClass_def VisitPersistentProperties_def
      MatchVisitor_def MatchVisitor_VisitProperty_def GetPropertyIDFromName_def
      RestoreObjectPropertiesFast_def RestoreFastPropertyVisitor_def RestoreFastPropertyVisitor_VisitProperty_def
      RestoreProperty_def Serialize_def MemoryReader_def SetPropertyValue_def Let_def)




section \<open>Properties\<close>

subsection \<open>C2: the slow path after a reordering\<close>

text \<open>
  Claim C2 says that the slow path, chosen when the stored property sequence differs
  from the runtime one, still restores every property present in both by name.
  The slow visitor finds the stored definition by name but hands
  \<^verbatim>\<open>RestoreProperty\<close> the reader at its current position: the offsets recorded at
  snapshot time never reach it. For a class saved as A, B with A = 1 and B = 2 and
  loaded as B, A, the slow path is selected and B receives 1 and A receives 2.
\<close>

theorem slow_path_reads_in_runtime_order:
  "\<not> MatchesRuntimeClass ChestClassDef ChestMetadata ReorderedActor
   \<and> RestoreObjectProperties ReorderedActor ChestPropertyData ChestMetadata None =
       (ReorderedActor\<lparr>PropertyValues := (PropertyValues ReorderedActor)([''B''] := [1], [''A''] := [2])\<rparr>,
        [(Verbose, ''Restoring properties via SLOW path'', [''/Game/BP_Chest.BP_Chest_C''])], False)"
proof -
  have m: "\<not> MatchesRuntimeClass ChestClassDef ChestMetadata ReorderedActor"
    by (simp add: MatchesRuntimeClass_def VisitPersistentProperties_def MatchVisitor_def
        MatchVisitor_VisitProperty_def ReorderedActor_def ChestClassDef_def ChestMetadata_def
        GetPropertyIDFromName_def)
  have c: "GetClassDef ChestMetadata (GetClassName ReorderedActor) = Some ChestClassDef"
    by (simp add: GetClassDef_def GetClassIDFromName_def ChestMetadata_def ChestClassDef_def
        GetClassName_def ReorderedActor_def)
  have s: "RestoreObjectPropertiesSlow ReorderedActor ChestPropertyData ChestMetadata ChestClassDef None =
       (ReorderedActor\<lparr>PropertyValues := (PropertyValues ReorderedActor)([''B''] := [1], [''A''] := [2])\<rparr>,
        [(Verbose, ''Restoring properties via SLOW path'', [''/Game/BP_Chest.BP_Chest_C''])], False)"
    by (simp add: RestoreObjectPropertiesSlow_def VisitPersistentProperties_def RestoreSlowPropertyVisitor_def
        RestoreSlowPropertyVisitor_VisitProperty_def ReorderedActor_def ChestClassDef_def ChestMetadata_def
        ChestPropertyData_def GetPropertyIDFromName_def RestoreProperty_def Serialize_def MemoryReader_def
        SetPropertyValue_def Let_def)
  show ?thesis using m c s by (simp add: RestoreObjectProperties_def)
qed

subsection \<open>C3: respawn, then restore, then destroy\<close>




subsection \<open>C4: the fast path consumes one stored slot per leaf\<close>

text \<open>
  Claim C4: a visit of the fast-path visitor that finds the iterator inside the
  stored property list continues, and advances the iterator by one for a leaf and
  not at all for a custom struct. Over a whole walk that ends without the
  out-of-range fault, the iterator has advanced by the number of leaves visited,
  nested leaves included.
\<close>

theorem fast_path_slot_consumption:
  "(rsIter s < length (Properties ClassDef) \<longrightarrow>
      fst (RestoreFastPropertyVisitor_VisitProperty ClassDef R p px c d s)
      \<and> rsIter (snd (RestoreFastPropertyVisitor_VisitProperty ClassDef R p px c d s)) =
          (if IsCustomStructProperty p then rsIter s else rsIter s + 1))
   \<and> (\<not> rsFault (snd (VisitProperties (RestoreFastPropertyVisitor ClassDef Meta R) ps px c d s)) \<longrightarrow>
        rsIter (snd (VisitProperties (RestoreFastPropertyVisitor ClassDef Meta R) ps px c d s)) =
          rsIter s + NumLeaves ps)"
proof -
  obtain b s' where v: "RestoreFastPropertyVisitor_VisitProperty ClassDef R p px c d s = (b, s')"
    by (cases "RestoreFastPropertyVisitor_VisitProperty ClassDef R p px c d s")
  obtain b2 s2 where w: "VisitProperties (RestoreFastPropertyVisitor ClassDef Meta R) ps px c d s = (b2, s2)"
    by (cases "VisitProperties (RestoreFastPropertyVisitor ClassDef Meta R) ps px c d s")
  show ?thesis
    using fast_visit_step[OF _ v] fast_walk_iter(1)[OF w] by (simp add: v w)
qed

text \<open>Witness for C4: a leaf and a custom struct visited at slot 0, and a walk over a
  struct followed by a leaf.\<close>

theorem fast_path_slot_consumption_witness:
  "rsIter \<lparr>rsActor = DoorActor, rsIn = MemoryReader [9, 7], rsIter = 0, rsLog = [], rsFault = False\<rparr>
     < length (Properties DoorClassDef)
   \<and> rsIter (snd (RestoreFastPropertyVisitor_VisitProperty DoorClassDef None
        (PrimitiveProperty ''Health'' ESST_UInt8) SPUDDATA_PREFIXID_NONE [] 0
        \<lparr>rsActor = DoorActor, rsIn = MemoryReader [9, 7], rsIter = 0, rsLog = [], rsFault = False\<rparr>)) = 1
   \<and> rsIter (snd (RestoreFastPropertyVisitor_VisitProperty DoorClassDef None
        (CustomStructProperty ''Lock'' [PrimitiveProperty ''Code'' ESST_UInt8]) SPUDDATA_PREFIXID_NONE [] 0
        \<lparr>rsActor = DoorActor, rsIn = MemoryReader [9, 7], rsIter = 0, rsLog = [], rsFault = False\<rparr>)) = 0
   \<and> \<not> rsFault (snd (VisitProperties (RestoreFastPropertyVisitor DoorClassDef (Metadata DoorLevelData) None)
        [CustomStructProperty ''Lock'' [], PrimitiveProperty ''Health'' ESST_UInt8] SPUDDATA_PREFIXID_NONE [] 0
        \<lparr>rsActor = DoorActor, rsIn = MemoryReader [9, 7], rsIter = 0, rsLog = [], rsFault = False\<rparr>))
   \<and> rsIter (snd (VisitProperties (RestoreFastPropertyVisitor DoorClassDef (Metadata DoorLevelData) None)
        [CustomStructProperty ''Lock'' [], PrimitiveProperty ''Health'' ESST_UInt8] SPUDDATA_PREFIXID_NONE [] 0
        \<lparr>rsActor = DoorActor, rsIn = MemoryReader [9, 7], rsIter = 0, rsLog = [], rsFault = False\<rparr>)) = 1"
proof -
  let ?s = "\<lparr>rsActor = DoorActor, rsIn = MemoryReader [9, 7], rsIter = 0, rsLog = [], rsFault = False\<rparr>"
  have h1: "rsIter ?s < length (Properties DoorClassDef)" by (simp add: DoorClassDef_def)
  have h2: "\<not> rsFault (snd (VisitProperties (RestoreFastPropertyVisitor DoorClassDef (Metadata DoorLevelData) None)
        [CustomStructProperty ''Lock'' [], PrimitiveProperty ''Health'' ESST_UInt8] SPUDDATA_PREFIXID_NONE [] 0 ?s))"
    by (simp add: RestoreFastPropertyVisitor_VisitProperty_def DoorClassDef_def RestoreProperty_def
        Serialize_def MemoryReader_def Let_def)
  show ?thesis
    using h1 h2
      fast_path_slot_consumption [of ?s DoorClassDef None "PrimitiveProperty ''Health'' ESST_UInt8"
        SPUDDATA_PREFIXID_NONE "[]" 0 "Metadata DoorLevelData"
        "[CustomStructProperty ''Lock'' [], PrimitiveProperty ''Health'' ESST_UInt8]"]
      fast_path_slot_consumption [of ?s DoorClassDef None "CustomStructProperty ''Lock'' [PrimitiveProperty ''Code'' ESST_UInt8]"
        SPUDDATA_PREFIXID_NONE "[]" 0 "Metadata DoorLevelData" "[]"]
    by simp
qed

subsection \<open>C5: the version tag of the core data\<close>

text \<open>
  Claim C5: when the version tag read from the stored core data is not 1,
  \<^verbatim>\<open>RestoreCoreActorData\<close> logs an error and leaves the actor as it is, and
  \<^verbatim>\<open>RestoreActor\<close> goes on to restore the properties (and to run the load hooks).
  Core data written with tag 1 sets the hidden flag and the transform, and sets
  the velocities when the root component is movable, simulating physics and a
  primitive component. With tag 1 and a root that is not movable or not simulating
  physics, the velocities are left as they were.
\<close>

theorem core_data_version_tag:
  "(CoreDataVersionTag (CoreData Data) \<noteq> 1 \<longrightarrow>
      RestoreCoreActorData env Actor (CoreData Data) =
        (Actor, [(Error, ''Core Actor Data is corrupt, not restoring'', [ActorName Actor])])
      \<and> (\<not> HasAnyFlags Actor [RF_ClassDefaultObject, RF_ArchetypeObject, RF_BeginDestroyed]
         \<and> StoredActorData Actor LevelData = Some Data \<longrightarrow>
           RestoreActor env Actor LevelData RuntimeObjects =
             (case RestoreObjectProperties (PreRestoreObject env Actor) (ObjProperties Data)
                     (Metadata LevelData) RuntimeObjects of
                (Actor3, log3, Fault) \<Rightarrow>
                  (if Fault then Actor3 else PostRestoreObject env Actor3 (CustomData Data),
                   [(Verbose, ''Restoring Actor'', [ActorName Actor]),
                    (Error, ''Core Actor Data is corrupt, not restoring'', [ActorName (PreRestoreObject env Actor)])]
                   @ log3, Fault))))
   \<and> RestoreCoreActorData env Actor (CoreBytes h t v w) =
       (case RootComponent Actor of
          None \<Rightarrow> (Actor\<lparr>bHidden := h\<rparr>, [])
        | Some rc \<Rightarrow>
            (Actor\<lparr>bHidden := h,
                   RootComponent := Some
                     (if Mobility rc = Movable \<and> SimulatingPhysics rc \<and> IsPrimitiveComponent rc
                      then rc\<lparr>ComponentTransform := t, PhysicsLinearVelocity := v, PhysicsAngularVelocity := w\<rparr>
                      else rc\<lparr>ComponentTransform := t\<rparr>)\<rparr>, []))
   \<and> (CoreDataVersionTag d = 1 \<and> RootComponent Actor = Some rc
        \<and> \<not> (Mobility rc = Movable \<and> SimulatingPhysics rc) \<longrightarrow>
        (\<exists>rc'. RootComponent (fst (RestoreCoreActorData env Actor d)) = Some rc'
            \<and> PhysicsLinearVelocity rc' = PhysicsLinearVelocity rc
            \<and> PhysicsAngularVelocity rc' = PhysicsAngularVelocity rc))"
proof -
  have a: "RestoreActor env Actor LevelData RuntimeObjects =
             (case RestoreObjectProperties (PreRestoreObject env Actor) (ObjProperties Data)
                     (Metadata LevelData) RuntimeObjects of
                (Actor3, log3, Fault) \<Rightarrow>
                  (if Fault then Actor3 else PostRestoreObject env Actor3 (CustomData Data),
                   [(Verbose, ''Restoring Actor'', [ActorName Actor]),
                    (Error, ''Core Actor Data is corrupt, not restoring'', [ActorName (PreRestoreObject env Actor)])]
                   @ log3, Fault))"
    if "CoreDataVersionTag (CoreData Data) \<noteq> 1"
      "\<not> HasAnyFlags Actor [RF_ClassDefaultObject, RF_ArchetypeObject, RF_BeginDestroyed]"
      "StoredActorData Actor LevelData = Some Data"
    using RestoreActor_found[OF that(2,3), of env RuntimeObjects]
      RestoreCore_bad[OF that(1), of env "PreRestoreObject env Actor"]
    by (simp add: split_beta)
  show ?thesis
    using a RestoreCore_bad[of "CoreData Data" env Actor] RestoreCore_v1[of env Actor h t v w]
      RestoreCore_v1_only_when(2)[of d Actor rc env]
    by blast
qed

text \<open>Witness for C5: the door with a record whose core data carries version 2.\<close>

theorem core_data_version_tag_witness:
  "CoreDataVersionTag (CoreData (FSpudObjectData.truncate DoorRecordBadCore)) \<noteq> 1
   \<and> \<not> HasAnyFlags DoorActor [RF_ClassDefaultObject, RF_ArchetypeObject, RF_BeginDestroyed]
   \<and> StoredActorData DoorActor DoorLevelData = Some (FSpudObjectData.truncate DoorRecordBadCore)
   \<and> RestoreActor TestEnv DoorActor DoorLevelData None =
       (DoorActor\<lparr>PropertyValues := (PropertyValues DoorActor)([''Health''] := [9])\<rparr>,
        [(Verbose, ''Restoring Actor'', [''Door_0'']),
         (Error, ''Core Actor Data is corrupt, not restoring'', [''Door_0'']),
         (Verbose, ''Restoring properties via FAST path'', [''/Game/BP_Door.BP_Door_C''])], False)
   \<and> CoreDataVersionTag (CoreBytes True TransformIdentity ZeroVector ZeroVector) = 1"
proof -
  have h1: "CoreDataVersionTag (CoreData (FSpudObjectData.truncate DoorRecordBadCore)) \<noteq> 1"
    by (simp add: CoreDataVersionTag_def DoorRecordBadCore_def FSpudObjectData.truncate_def
        ReadRaw_uint16_def Serialize_def MemoryReader_def)
  have h2: "\<not> HasAnyFlags DoorActor [RF_ClassDefaultObject, RF_ArchetypeObject, RF_BeginDestroyed]"
    by (simp add: HasAnyFlags_def DoorActor_def)
  have h3: "StoredActorData DoorActor DoorLevelData = Some (FSpudObjectData.truncate DoorRecordBadCore)"
    by (simp add: StoredActorData_def ShouldActorBeRespawnedOnRestore_def DoorActor_def DoorLevelData_def
        GetLevelActorName_def)
  have p: "PreRestoreObject TestEnv DoorActor = DoorActor"
    by (simp add: PreRestoreObject_def DoorActor_def)
  have q: "PostRestoreObject TestEnv (DoorActor\<lparr>PropertyValues := x\<rparr>) y = DoorActor\<lparr>PropertyValues := x\<rparr>" for x y
    by (simp add: PostRestoreObject_def DoorActor_def)
  have n: "ActorName DoorActor = ''Door_0''" by (simp add: DoorActor_def)
  have o: "ObjProperties (FSpudObjectData.truncate DoorRecordBadCore) = \<lparr>PropertyOffsets = [0], PropData = [9]\<rparr>"
    by (simp add: DoorRecordBadCore_def FSpudObjectData.truncate_def)
  have t: "CoreDataVersionTag (CoreBytes True TransformIdentity ZeroVector ZeroVector) = 1"
    by (simp add: CoreDataVersionTag_def CoreBytes_def WriteRaw_FVector_def WriteRaw_FTransform_def
        WriteRaw_bool_def WriteRaw_uint16_def ReadRaw_uint16_def Serialize_def MemoryReader_def)
  show ?thesis
    using h1 h2 h3 t
      core_data_version_tag [of "FSpudObjectData.truncate DoorRecordBadCore" TestEnv DoorActor DoorLevelData None]
    by (simp add: p q n o DoorRestore_props)
qed

subsection \<open>C6: routing decision\<close>

text \<open>
  Claim C6, as stated, makes a valid persistent identity part of the routing decision.
  It is not: the runtime actor \<open>EnemyActor\<close> has a blank SpudGuid and an
  AlwaysRespawn override, and \<^verbatim>\<open>ShouldActorBeRespawnedOnRestore\<close> routes it to the
  spawned actors. (\<^verbatim>\<open>GetSpawnedActorData\<close> deals with the blank GUID afterwards.)
\<close>

theorem routing_ignores_guid_validity:
  "\<not> (ShouldActorBeRespawnedOnRestore EnemyActor \<longleftrightarrow>
        (IsRuntimeActor EnemyActor \<and> Guid_IsValid (GetGuidProperty EnemyActor)) \<and>
        ShouldRespawnRuntimeActor EnemyActor)"
  by (simp add: ShouldActorBeRespawnedOnRestore_def ShouldRespawnRuntimeActor_def EnemyActor_def
      Guid_IsValid_def GetGuidProperty_def)

text \<open>
  Claim C6, amended: an actor is routed to the spawned actors if and only if
  \<^verbatim>\<open>IsRuntimeActor\<close> holds for it and the respawn policy approves: an override of
  AlwaysRespawn gives true, NeverRespawn gives false, and the default policy (also
  used when the actor is no \<^verbatim>\<open>ISpudObject\<close>) excludes exactly the actors that are a
  GameModeBase, a GameStateBase, a Pawn or a Character. The validity of the SpudGuid
  takes no part in the decision.
\<close>

theorem routing_decision:
  "ShouldActorBeRespawnedOnRestore Actor \<longleftrightarrow>
     IsRuntimeActor Actor \<and>
     (case SpudObject Actor of
        Some AlwaysRespawn \<Rightarrow> True
      | Some NeverRespawn \<Rightarrow> False
      | _ \<Rightarrow> \<not> IsA Actor Class_AGameModeBase \<and> \<not> IsA Actor Class_AGameStateBase \<and>
             \<not> IsA Actor Class_APawn \<and> \<not> IsA Actor Class_ACharacter)"
  by (simp add: ShouldActorBeRespawnedOnRestore_def ShouldRespawnRuntimeActor_def
      split: option.splits ESpudRespawnMode.splits)

text \<open>Witness for C6: the runtime enemy is routed to respawn, the level door is not.\<close>

theorem routing_decision_witness:
  "ShouldActorBeRespawnedOnRestore EnemyActor \<and> \<not> ShouldActorBeRespawnedOnRestore DoorActor"
  using routing_decision [of EnemyActor] routing_decision [of DoorActor]
  by (simp add: EnemyActor_def DoorActor_def)

subsection \<open>C7: recording a destroyed actor twice\<close>

text \<open>
  Claim C7: recording the same level actor as destroyed twice appends its name
  twice (no duplicate check, nothing logged). On restore, in a level whose actors
  have distinct names, the removal loop over the list with the name twice ends in
  the same level and makes the same engine calls as with the name once, and the
  actor of that name is destroyed at most once.
\<close>

theorem destroyed_twice_is_idempotent:
  assumes "distinct (map ActorName (Actors Level))"
  shows "DestroyedActors (UpdateLevelActorDestroyed Actor (UpdateLevelActorDestroyed Actor LevelData)) =
           DestroyedActors LevelData @ [GetLevelActorName Actor, GetLevelActorName Actor]
       \<and> UpdateLevelActorDestroyed Actor (UpdateLevelActorDestroyed Actor LevelData) =
           (UpdateLevelActorDestroyed Actor LevelData)
             \<lparr>DestroyedActors := DestroyedActors (UpdateLevelActorDestroyed Actor LevelData) @ [GetLevelActorName Actor]\<rparr>
       \<and> DestroyLoop (DestroyedActors (UpdateLevelActorDestroyed Actor (UpdateLevelActorDestroyed Actor LevelData))) Level =
           DestroyLoop (DestroyedActors (UpdateLevelActorDestroyed Actor LevelData)) Level
       \<and> length (filter (\<lambda>e. e = WorldDestroyActorCall (GetLevelActorName Actor))
            (snd (DestroyLoop (DestroyedActors (UpdateLevelActorDestroyed Actor (UpdateLevelActorDestroyed Actor LevelData))) Level)))
           \<le> 1"
proof -
  let ?n = "GetLevelActorName Actor"
  have l: "DestroyLoop (DestroyedActors LevelData @ [?n, ?n]) Level = DestroyLoop (DestroyedActors LevelData @ [?n]) Level"
    using DestroyLoop_twice[OF assms, of "DestroyedActors LevelData" ?n] by (simp add: prod_eq_iff)
  have c: "length (filter (\<lambda>e. e = WorldDestroyActorCall ?n) (snd (DestroyLoop (DestroyedActors LevelData @ [?n, ?n]) Level))) \<le> 1"
    using DestroyLoop_count[of ?n "DestroyedActors LevelData @ [?n, ?n]" Level]
      distinct_count_le1[OF assms, of ?n] by linarith
  show ?thesis using l c by (simp add: UpdateLevelActorDestroyed_def)
qed

text \<open>Witness for C7: the door recorded twice and removed once.\<close>

theorem destroyed_twice_is_idempotent_witness:
  "distinct (map ActorName (Actors TestLevel))
   \<and> DestroyedActors (UpdateLevelActorDestroyed DoorActor (UpdateLevelActorDestroyed DoorActor (NewLevelData ''Test''))) =
       [''Door_0'', ''Door_0'']
   \<and> DestroyLoop [''Door_0'', ''Door_0''] TestLevel = (TestLevel\<lparr>Actors := []\<rparr>, [WorldDestroyActorCall ''Door_0''])
   \<and> DestroyLoop [''Door_0''] TestLevel = (TestLevel\<lparr>Actors := []\<rparr>, [WorldDestroyActorCall ''Door_0''])"
proof -
  have h: "distinct (map ActorName (Actors TestLevel))" by (simp add: TestLevel_def)
  have d: "DestroyLoop [''Door_0''] TestLevel = (TestLevel\<lparr>Actors := []\<rparr>, [WorldDestroyActorCall ''Door_0''])"
    by (simp add: DestroyActor_def StaticFindObject_def World_DestroyActor_def TestLevel_def DoorActor_def)
  show ?thesis
    using h d destroyed_twice_is_idempotent [OF h, of DoorActor "NewLevelData ''Test''"]
    by (simp add: UpdateLevelActorDestroyed_def NewLevelData_def GetLevelActorName_def DoorActor_def)
qed

subsection \<open>C8: restoring a level without stored data\<close>

text \<open>
  Claim C8: when \<^verbatim>\<open>RestoreLevel\<close> is called for a (valid) level that has no stored level
  data, it logs one warning and returns: the level and the save data are unchanged,
  and no actor is respawned, restored or destroyed.
\<close>

theorem RestoreLevel_missing_data:
  assumes "LevelIsValid Level" and "LevelDataMap SaveData (GetLevelName Level) = None"
  shows "RestoreLevel env SaveData Level =
     (Level, SaveData,
      [(Warning, ''Unable to restore level because data is missing'', [GetLevelName Level])], [], False)"
  using assms by (simp add: RestoreLevel_def GetLevelData_def)

text \<open>Witness for C8: the test level against empty save data.\<close>

theorem RestoreLevel_missing_data_witness:
  "LevelIsValid TestLevel \<and> LevelDataMap EmptySaveData (GetLevelName TestLevel) = None
   \<and> RestoreLevel TestEnv EmptySaveData TestLevel =
     (TestLevel, EmptySaveData,
      [(Warning, ''Unable to restore level because data is missing'', [''Test''])], [], False)"
proof -
  have h1: "LevelIsValid TestLevel" by (simp add: TestLevel_def)
  have h2: "LevelDataMap EmptySaveData (GetLevelName TestLevel) = None" by (simp add: EmptySaveData_def)
  show ?thesis
    using h1 h2 RestoreLevel_missing_data [OF h1 h2, of TestEnv] by (simp add: GetLevelName_TestLevel)
qed

subsection \<open>C9: a blank SpudGuid is replaced during snapshot\<close>

text \<open>
  Claim C9: with \<^verbatim>\<open>AutoCreate\<close>, \<^verbatim>\<open>GetSpawnedActorData\<close> on an actor whose SpudGuid
  property is blank writes the new GUID into the live actor and returns a record
  under that GUID; it returns no record exactly when the actor has no SpudGuid
  property, and then logs the error and changes nothing. The snapshot of an actor
  routed to respawn therefore returns the actor with its SpudGuid set (stated for
  an actor without save callbacks) and a record stored under the new GUID.
\<close>

theorem blank_guid_is_replaced:
  "(SpudGuid Actor = Some g \<and> \<not> Guid_IsValid g \<longrightarrow>
      (\<exists>LevelData' r. GetSpawnedActorData env Actor LevelData True =
         (Actor\<lparr>SpudGuid := Some (NewGuid env)\<rparr>, LevelData', Some (NewGuid env, r), [])))
   \<and> ((\<exists>Actor' LevelData' log. GetSpawnedActorData env Actor LevelData True =
          (Actor', LevelData', None, log)) \<longleftrightarrow> SpudGuid Actor = None)
   \<and> (SpudGuid Actor = None \<longrightarrow>
        GetSpawnedActorData env Actor LevelData True = (Actor, LevelData, None, MissingGuidLog Actor))
   \<and> (SpudGuid Actor = Some g \<and> \<not> Guid_IsValid g \<and> ShouldActorBeRespawnedOnRestore Actor
       \<and> \<not> HasAnyFlags Actor [RF_ClassDefaultObject, RF_ArchetypeObject, RF_BeginDestroyed]
       \<and> \<not> ImplementsSpudObjectCallback Actor \<longrightarrow>
        fst (UpdateFromActor env Actor LevelData) = Actor\<lparr>SpudGuid := Some (NewGuid env)\<rparr>
        \<and> NewGuid env \<in> fst ` set (SpawnedActors (fst (snd (UpdateFromActor env Actor LevelData)))))"
  using GetSpawnedActorData_blank[of Actor g env LevelData]
    GetSpawnedActorData_None_iff[of env Actor LevelData]
    GetSpawnedActorData_no_property[of Actor env LevelData]
    UpdateFromActor_blank[of Actor g env LevelData]
  by blast

text \<open>Witness for C9: the enemy with a blank SpudGuid, and the door without the property.\<close>

theorem blank_guid_is_replaced_witness:
  "SpudGuid EnemyActor = Some 0 \<and> \<not> Guid_IsValid 0 \<and> ShouldActorBeRespawnedOnRestore EnemyActor
   \<and> \<not> HasAnyFlags EnemyActor [RF_ClassDefaultObject, RF_ArchetypeObject, RF_BeginDestroyed]
   \<and> \<not> ImplementsSpudObjectCallback EnemyActor
   \<and> SpudGuid DoorActor = None
   \<and> fst (UpdateFromActor TestEnv EnemyActor (NewLevelData ''Test'')) = EnemyActor\<lparr>SpudGuid := Some 42\<rparr>
   \<and> 42 \<in> fst ` set (SpawnedActors (fst (snd (UpdateFromActor TestEnv EnemyActor (NewLevelData ''Test'')))))
   \<and> GetSpawnedActorData TestEnv DoorActor (NewLevelData ''Test'') True =
       (DoorActor, NewLevelData ''Test'', None, MissingGuidLog DoorActor)"
proof -
  have h: "SpudGuid EnemyActor = Some 0 \<and> \<not> Guid_IsValid 0 \<and> ShouldActorBeRespawnedOnRestore EnemyActor
   \<and> \<not> HasAnyFlags EnemyActor [RF_ClassDefaultObject, RF_ArchetypeObject, RF_BeginDestroyed]
   \<and> \<not> ImplementsSpudObjectCallback EnemyActor"
    by (simp add: EnemyActor_def Guid_IsValid_def ShouldActorBeRespawnedOnRestore_def
        ShouldRespawnRuntimeActor_def HasAnyFlags_def)
  have d: "SpudGuid DoorActor = None" by (simp add: DoorActor_def)
  have n: "NewGuid TestEnv = 42" by (simp add: TestEnv_def)
  show ?thesis
    using h d blank_guid_is_replaced [of EnemyActor 0 TestEnv "NewLevelData ''Test''"]
      blank_guid_is_replaced [of DoorActor 0 TestEnv "NewLevelData ''Test''"]
    by (simp add: n)
qed

subsection \<open>C10: flagged actors are skipped\<close>

text \<open>
  Claim C10: for an actor that carries any of the flags class-default-object,
  archetype or begin-destroyed, both overloads of \<^verbatim>\<open>UpdateFromActor\<close> and of
  \<^verbatim>\<open>RestoreActor\<close> return at once: the actor and the save data come back unchanged
  and nothing is logged.
\<close>

theorem flagged_actor_is_skipped:
  assumes "HasAnyFlags Actor [RF_ClassDefaultObject, RF_ArchetypeObject, RF_BeginDestroyed]"
  shows "UpdateFromActor env Actor LevelData = (Actor, LevelData, [])
       \<and> RestoreActor env Actor LevelData RuntimeObjects = (Actor, [], False)
       \<and> UpdateFromActor_Obj env Actor SaveData = (Actor, SaveData, [])
       \<and> RestoreActor_Obj env Actor SaveData = (Actor, SaveData, [], False)"
  using assms
  by (simp add: UpdateFromActor_def RestoreActor_def UpdateFromActor_Obj_def RestoreActor_Obj_def)

text \<open>Witness for C10: the class default object of the door.\<close>

theorem flagged_actor_is_skipped_witness:
  "HasAnyFlags DoorCDO [RF_ClassDefaultObject, RF_ArchetypeObject, RF_BeginDestroyed]
   \<and> UpdateFromActor TestEnv DoorCDO DoorLevelData = (DoorCDO, DoorLevelData, [])
   \<and> RestoreActor TestEnv DoorCDO DoorLevelData None = (DoorCDO, [], False)
   \<and> UpdateFromActor_Obj TestEnv DoorCDO EmptySaveData = (DoorCDO, EmptySaveData, [])
   \<and> RestoreActor_Obj TestEnv DoorCDO EmptySaveData = (DoorCDO, EmptySaveData, [], False)"
proof -
  have h: "HasAnyFlags DoorCDO [RF_ClassDefaultObject, RF_ArchetypeObject, RF_BeginDestroyed]"
    by (simp add: HasAnyFlags_def DoorCDO_def)
  show ?thesis
    using h flagged_actor_is_skipped [OF h, of TestEnv DoorLevelData None EmptySaveData] by simp
qed

end
